theory Spec2Isabelle
  imports Main
begin

section \<open>The OPA permission client: data model (types.go)\<close>

text \<open>
  Go strings are byte sequences and are modelled as \<open>string\<close>. A Go slice of strings is a
  list; the nil slice and the empty slice are both \<open>[]\<close>, which is all that \<open>len\<close>,
  \<open>range\<close>, \<open>slices.Contains\<close> and the \<open>omitempty\<close> tag can observe. Where the
  difference between a nil slice and an empty slice is visible to the caller (the result
  of the batch query) the slice is an \<open>option\<close>, with \<open>None\<close> for nil.
  Durations are natural numbers of nanoseconds, as in \<open>time.Duration\<close>.
\<close>

type_synonym Action = string

definition ActionRead :: Action where "ActionRead = ''read''"
definition ActionList :: Action where "ActionList = ''list''"
definition ActionCreate :: Action where "ActionCreate = ''create''"
definition ActionUpdate :: Action where "ActionUpdate = ''update''"
definition ActionDelete :: Action where "ActionDelete = ''delete''"

definition time_Second :: nat where
  "time_Second = 1000000000"

record PermissionOptions =
  MemberIds :: "string list"
  RaiseForbidden :: bool
  OverrideHeaderValue :: string

record PermissionQueryRequestInput =
  Query_Resource :: string
  Query_Action :: string
  Query_Ids :: "string list"

record PermissionQueryRequest =
  Query_Input :: PermissionQueryRequestInput

record PermissionFilterRequestInput =
  Filter_Resources :: "string list"
  Filter_Action :: string
  Filter_Ids :: "string list"

record PermissionFilterRequest =
  Filter_Input :: PermissionFilterRequestInput

record PermissionQueryResponse =
  Query_Result :: bool

record PermissionFilterResponse =
  Filter_Result :: "string list"

text \<open>
  The fields of \<open>HTTPClient\<close> that the two query methods read. The logger and the
  underlying \<open>http.Client\<close> act on the world below.
\<close>

record HTTPClient =
  address :: string
  permissionQueryPath :: string
  permissionFilterPath :: string
  requestTimeout :: nat
  verbose :: bool
  overrideHeaderValue :: string

section \<open>Errors, panics and results\<close>

text \<open>
  An error value is either created by a library (\<open>New\<close>) or is another error wrapped
  with a message (\<open>errors.Wrap\<close>). A Go method either returns its pair of a result and an
  error (\<open>None\<close> is the nil error), or panics.
\<close>

datatype error = New string | Wrap error string

datatype 'a go_result = Return 'a "error option" | Panic string

definition nilDereference :: string where
  "nilDereference = ''invalid memory address or nil pointer dereference''"

section \<open>The request encoding (struct tags of types.go)\<close>

datatype json =
    JNull
  | JBool bool
  | JString string
  | JArray "json list"
  | JObject "(string \<times> json) list"

text \<open>
  A field tagged \<open>omitempty\<close> is left out of the object when it holds the empty string
  or a slice of length zero. A field of struct type is never empty for \<open>encoding/json\<close>,
  so the \<open>input\<close> member is always written.
\<close>

definition omitempty_string :: "string \<Rightarrow> string \<Rightarrow> (string \<times> json) list" where
  "omitempty_string key v = (if v = [] then [] else [(key, JString v)])"

definition omitempty_strings :: "string \<Rightarrow> string list \<Rightarrow> (string \<times> json) list" where
  "omitempty_strings key vs = (if vs = [] then [] else [(key, JArray (map JString vs))])"

definition json_of_PermissionQueryRequestInput :: "PermissionQueryRequestInput \<Rightarrow> json" where
  "json_of_PermissionQueryRequestInput i =
     JObject (omitempty_string ''resource'' (Query_Resource i)
            @ omitempty_string ''action'' (Query_Action i)
            @ omitempty_strings ''ids'' (Query_Ids i))"

definition json_of_PermissionQueryRequest :: "PermissionQueryRequest \<Rightarrow> json" where
  "json_of_PermissionQueryRequest r =
     JObject [(''input'', json_of_PermissionQueryRequestInput (Query_Input r))]"

definition json_of_PermissionFilterRequestInput :: "PermissionFilterRequestInput \<Rightarrow> json" where
  "json_of_PermissionFilterRequestInput i =
     JObject (omitempty_strings ''resources'' (Filter_Resources i)
            @ omitempty_string ''action'' (Filter_Action i)
            @ omitempty_strings ''ids'' (Filter_Ids i))"

definition json_of_PermissionFilterRequest :: "PermissionFilterRequest \<Rightarrow> json" where
  "json_of_PermissionFilterRequest r =
     JObject [(''input'', json_of_PermissionFilterRequestInput (Filter_Input r))]"

section \<open>The environment: libraries, network and clock\<close>

record http_request =
  req_method :: string
  req_url :: string
  req_body :: string
  req_headers :: "(string \<times> string) list"
  req_cookies :: "string list"

text \<open>
  One request/response exchange takes \<open>elapsed\<close> nanoseconds and ends either in a
  network-level error (\<open>Inl\<close>) or in a response with a status code and a body.
\<close>

record exchange =
  elapsed :: nat
  reply :: "string + (nat \<times> string)"

text \<open>
  What the client is linked against and talks to:
  \<^item> \<open>json_encode\<close>: the byte rendering of \<open>json.Marshal\<close>, which may report an error;
  \<^item> \<open>json_Unmarshal_query\<close>, \<open>json_Unmarshal_filter\<close>: \<open>json.Unmarshal\<close> into a
    \<open>PermissionQueryResponse\<close> and into a \<open>PermissionFilterResponse\<close>;
  \<^item> \<open>server\<close>: the outcome of the \<open>n\<close>-th exchange on the wire, given the request;
  \<^item> \<open>UserAgent\<close>: the package constant of that name, declared outside types.go.
\<close>

record env =
  json_encode :: "json \<Rightarrow> error + string"
  json_Unmarshal_query :: "string \<Rightarrow> error + PermissionQueryResponse"
  json_Unmarshal_filter :: "string \<Rightarrow> error + PermissionFilterResponse"
  server :: "nat \<Rightarrow> http_request \<Rightarrow> exchange"
  UserAgent :: string

datatype log_level = Info | Warn | Error

text \<open>
  The mutable world: a clock in nanoseconds, the requests put on the wire so far, and the
  lines written by the logger.
\<close>

record world =
  clock :: nat
  sent :: "http_request list"
  logs :: "(log_level \<times> string) list"

definition logger_log :: "log_level \<Rightarrow> string \<Rightarrow> world \<Rightarrow> world" where
  "logger_log lvl msg w = w\<lparr>logs := logs w @ [(lvl, msg)]\<rparr>"

definition log_verbose :: "HTTPClient \<Rightarrow> log_level \<Rightarrow> string \<Rightarrow> world \<Rightarrow> world" where
  "log_verbose c lvl msg w = (if verbose c then logger_log lvl msg w else w)"

definition time_Sleep :: "nat \<Rightarrow> world \<Rightarrow> world" where
  "time_Sleep d w = w\<lparr>clock := clock w + d\<rparr>"

definition http_MethodPost :: string where "http_MethodPost = ''POST''"
definition http_StatusOK :: nat where "http_StatusOK = 200"

definition json_Marshal_query :: "env \<Rightarrow> PermissionQueryRequest \<Rightarrow> error + string" where
  "json_Marshal_query e r = json_encode e (json_of_PermissionQueryRequest r)"

definition json_Marshal_filter :: "env \<Rightarrow> PermissionFilterRequest \<Rightarrow> error + string" where
  "json_Marshal_filter e r = json_encode e (json_of_PermissionFilterRequest r)"

definition slices_Contains :: "string list \<Rightarrow> string \<Rightarrow> bool" where
  "slices_Contains s v = (find (\<lambda>x. x = v) s \<noteq> None)"

section \<open>Transport invoker and bounded retrier\<close>

text \<open>The world after one exchange: time has passed and the request is on the wire.\<close>

definition onWire :: "world \<Rightarrow> http_request \<Rightarrow> exchange \<Rightarrow> world" where
  "onWire w request ex = w\<lparr>clock := clock w + elapsed ex, sent := sent w @ [request]\<rparr>"

text \<open>
  Modelled from the spec: \<open>sendHTTPRequest\<close> is a function of this package declared
  outside types.go. It sends one request with a method, URL, body, headers and cookies
  and checks that the response status equals the expected code; a network-level error or
  any other status is a failure. It performs no retrying. It returns the response body,
  the status and the error.
\<close>

definition sendHTTPRequest ::
  "env \<Rightarrow> string \<Rightarrow> string \<Rightarrow> string \<Rightarrow> (string \<times> string) list \<Rightarrow> string list \<Rightarrow> nat
     \<Rightarrow> world \<Rightarrow> (string \<times> nat \<times> error option) \<times> world" where
  "sendHTTPRequest e method url body headers cookies expectedStatusCode w =
     (let request = \<lparr>req_method = method, req_url = url, req_body = body,
                      req_headers = headers, req_cookies = cookies\<rparr>;
          ex = server e (length (sent w)) request;
          w' = onWire w request ex
      in case reply ex of
           Inl msg \<Rightarrow> (([], 0, Some (New msg)), w')
         | Inr (status, responseBody) \<Rightarrow>
             if status = expectedStatusCode then ((responseBody, status, None), w')
             else (([], status, Some (New ''unexpected status code'')), w'))"

text \<open>
  Modelled from the spec: \<open>retryUntilSuccessful\<close> is a function of this package declared
  outside types.go. Given a total timeout, a poll interval and a probe returning a success
  boolean, it invokes the probe repeatedly at the given interval until the probe reports
  success or the timeout has elapsed, and then reports overall success or failure. The
  loop may not return (a zero interval with a probe that takes no time), so it is a
  partial function; \<open>None\<close> is not returning.
\<close>

definition timedOut :: error where
  "timedOut = New ''Timed out waiting until successful''"

partial_function (option) retryLoop ::
  "nat \<Rightarrow> nat \<Rightarrow> (world \<times> 'v \<Rightarrow> bool \<times> world \<times> 'v) \<Rightarrow> world \<times> 'v
     \<Rightarrow> (error option \<times> world \<times> 'v) option" where
  "retryLoop deadline interval callback s =
     (if deadline < clock (fst s)
      then Some (Some timedOut, s)
      else case callback s of
             (ok, s') \<Rightarrow>
               if ok then Some (None, s')
               else retryLoop deadline interval callback (time_Sleep interval (fst s'), snd s'))"

definition retryUntilSuccessful ::
  "nat \<Rightarrow> nat \<Rightarrow> (world \<times> 'v \<Rightarrow> bool \<times> world \<times> 'v) \<Rightarrow> world \<times> 'v
     \<Rightarrow> (error option \<times> world \<times> 'v) option" where
  "retryUntilSuccessful duration interval callback s =
     retryLoop (clock (fst s) + duration) interval callback s"

section \<open>The HTTP client (types.go)\<close>

text \<open>
  The variables that the probe closure captures and assigns: \<open>responseBody\<close> and the
  enclosing function's \<open>err\<close>.
\<close>

record captured =
  responseBody :: string
  err :: "error option"

definition requestHeaders :: "env \<Rightarrow> (string \<times> string) list" where
  "requestHeaders e = [(''Content-Type'', ''application/json''), (''User-Agent'', UserAgent e)]"

text \<open>The closure passed to the retrier; it is the same in both query methods.\<close>

definition probe ::
  "env \<Rightarrow> string \<Rightarrow> string \<Rightarrow> (string \<times> string) list
     \<Rightarrow> world \<times> captured \<Rightarrow> bool \<times> world \<times> captured" where
  "probe e requestURL requestBody headers s =
     (case sendHTTPRequest e http_MethodPost requestURL requestBody headers [] http_StatusOK (fst s) of
        ((body, status, er), w') \<Rightarrow>
          (case er of
             Some x \<Rightarrow>
               (False,
                logger_log Warn ''Failed to send HTTP request to OPA, retrying'' w',
                \<lparr>responseBody = body, err = er\<rparr>)
           | None \<Rightarrow> (True, w', \<lparr>responseBody = body, err = er\<rparr>)))"

text \<open>
  The condition of the bypass shortcut,
  \<^verbatim>\<open>c.overrideHeaderValue != "" && permissionOptions.OverrideHeaderValue == c.overrideHeaderValue\<close>:
  the right operand dereferences \<open>permissionOptions\<close> and is evaluated only when the left
  one holds. \<open>None\<close> is the panic of a nil dereference.
\<close>

definition overrideMatches :: "HTTPClient \<Rightarrow> PermissionOptions option \<Rightarrow> bool option" where
  "overrideMatches c permissionOptions =
     (if overrideHeaderValue c \<noteq> [] then
        (case permissionOptions of
           None \<Rightarrow> None
         | Some po \<Rightarrow> Some (OverrideHeaderValue po = overrideHeaderValue c))
      else Some False)"

text \<open>The loop \<^verbatim>\<open>for i := 0; i < len(results); i++ { results[i] = true }\<close>.\<close>

definition allowAll :: "bool list \<Rightarrow> bool list" where
  "allowAll results = fold (\<lambda>i rs. rs[i := True]) [0..<length results] results"

text \<open>
  The loop over \<^verbatim>\<open>range resources\<close> that sets \<open>results[resourceIdx]\<close> for every
  resource contained in the decoded result.
\<close>

definition markAllowed :: "string list \<Rightarrow> string list \<Rightarrow> bool list \<Rightarrow> bool list" where
  "markAllowed allowed resources results =
     fold (\<lambda>(resourceIdx, resource) rs.
             if slices_Contains allowed resource then rs[resourceIdx := True] else rs)
          (enumerate 0 resources) results"

definition QueryPermissionsMultiResources ::
  "env \<Rightarrow> HTTPClient \<Rightarrow> string list \<Rightarrow> Action \<Rightarrow> PermissionOptions option \<Rightarrow> world
     \<Rightarrow> (bool list option go_result \<times> world) option" where
  "QueryPermissionsMultiResources e c resources action permissionOptions w =
     (let results = replicate (length resources) False in
      case overrideMatches c permissionOptions of
        None \<Rightarrow> Some (Panic nilDereference, w)
      | Some True \<Rightarrow> Some (Return (Some (allowAll results)) None, w)
      | Some False \<Rightarrow>
         (let requestURL = address c @ permissionFilterPath c;
              headers = requestHeaders e
          in case permissionOptions of
               None \<Rightarrow> Some (Panic nilDereference, w)
             | Some po \<Rightarrow>
                (let request = \<lparr>Filter_Input = \<lparr>Filter_Resources = resources,
                                                 Filter_Action = action,
                                                 Filter_Ids = MemberIds po\<rparr>\<rparr>
                 in case json_Marshal_filter e request of
                      Inl er \<Rightarrow> Some (Return None (Some (Wrap er ''Failed to generate request body'')), w)
                    | Inr requestBody \<Rightarrow>
                       (let w1 = log_verbose c Info ''Sending request to OPA'' w in
                        case retryUntilSuccessful (6 * time_Second) (1 * time_Second)
                               (probe e requestURL requestBody headers)
                               (w1, \<lparr>responseBody = [], err = None\<rparr>) of
                          None \<Rightarrow> None
                        | Some (Some er, w2, v) \<Rightarrow>
                            Some (Return None (Some (Wrap er ''Failed to send HTTP request to OPA'')),
                                  log_verbose c Error ''Failed to send HTTP request to OPA'' w2)
                        | Some (None, w2, v) \<Rightarrow>
                           (let w3 = log_verbose c Info ''Received response from OPA'' w2 in
                            case json_Unmarshal_filter e (responseBody v) of
                              Inl er \<Rightarrow>
                                Some (Return None (Some (Wrap er ''Failed to unmarshal response body'')), w3)
                            | Inr permissionFilterResponse \<Rightarrow>
                                Some (Return (Some (markAllowed (Filter_Result permissionFilterResponse)
                                                      resources results)) None,
                                      log_verbose c Info
                                        ''Successfully unmarshalled permission filter response'' w3))))))"

definition QueryPermissions ::
  "env \<Rightarrow> HTTPClient \<Rightarrow> string \<Rightarrow> Action \<Rightarrow> PermissionOptions option \<Rightarrow> world
     \<Rightarrow> (bool go_result \<times> world) option" where
  "QueryPermissions e c resource action permissionOptions w =
     (case overrideMatches c permissionOptions of
        None \<Rightarrow> Some (Panic nilDereference, w)
      | Some True \<Rightarrow> Some (Return True None, w)
      | Some False \<Rightarrow>
         (let requestURL = address c @ permissionQueryPath c;
              headers = requestHeaders e
          in case permissionOptions of
               None \<Rightarrow> Some (Panic nilDereference, w)
             | Some po \<Rightarrow>
                (let request = \<lparr>Query_Input = \<lparr>Query_Resource = resource,
                                                Query_Action = action,
                                                Query_Ids = MemberIds po\<rparr>\<rparr>
                 in case json_Marshal_query e request of
                      Inl er \<Rightarrow> Some (Return False (Some (Wrap er ''Failed to generate request body'')), w)
                    | Inr requestBody \<Rightarrow>
                       (let w1 = log_verbose c Info ''Sending request to OPA'' w in
                        case retryUntilSuccessful (6 * time_Second) (1 * time_Second)
                               (probe e requestURL requestBody headers)
                               (w1, \<lparr>responseBody = [], err = None\<rparr>) of
                          None \<Rightarrow> None
                        | Some (Some er, w2, v) \<Rightarrow>
                            Some (Return False (Some (Wrap er ''Failed to send HTTP request to OPA'')),
                                  log_verbose c Error ''Failed to send HTTP request to OPA'' w2)
                        | Some (None, w2, v) \<Rightarrow>
                           (let w3 = log_verbose c Info ''Received response from OPA'' w2 in
                            case json_Unmarshal_query e (responseBody v) of
                              Inl er \<Rightarrow>
                                Some (Return False (Some (Wrap er ''Failed to unmarshal response body'')), w3)
                            | Inr permissionResponse \<Rightarrow>
                                Some (Return (Query_Result permissionResponse) None,
                                      log_verbose c Info
                                        ''Successfully unmarshalled permission response'' w3))))))"

section \<open>Vocabulary for the properties\<close>

text \<open>The request that the probe of either query method puts on the wire at each attempt.\<close>

definition transportRequest :: "env \<Rightarrow> string \<Rightarrow> string \<Rightarrow> http_request" where
  "transportRequest e requestURL requestBody =
     \<lparr>req_method = http_MethodPost, req_url = requestURL, req_body = requestBody,
      req_headers = requestHeaders e, req_cookies = []\<rparr>"

text \<open>An exchange succeeds when it ends in a response with status 200.\<close>

definition exchangeSucceeds :: "exchange \<Rightarrow> bool" where
  "exchangeSucceeds ex =
     (case reply ex of Inl msg \<Rightarrow> False | Inr (status, body) \<Rightarrow> status = http_StatusOK)"

text \<open>
  A transport that fails \<open>k\<close> times and then succeeds within the window: counted from the
  world \<open>w\<close> in which the call starts, the next \<open>k\<close> exchanges of the request fail, the
  one after them answers 200 with \<open>body\<close>, and it is started no later than 6 seconds
  after the first (every failed attempt costs its own duration and the 1 second pause).
  With \<open>k = 0\<close> the transport succeeds immediately.
\<close>

definition failsThenSucceeds :: "env \<Rightarrow> http_request \<Rightarrow> world \<Rightarrow> nat \<Rightarrow> string \<Rightarrow> bool" where
  "failsThenSucceeds e request w k body \<longleftrightarrow>
     list_all (\<lambda>i. \<not> exchangeSucceeds (server e (length (sent w) + i) request)) [0..<k]
   \<and> reply (server e (length (sent w) + k) request) = Inr (http_StatusOK, body)
   \<and> sum_list (map (\<lambda>i. elapsed (server e (length (sent w) + i) request) + 1 * time_Second) [0..<k])
       \<le> 6 * time_Second"

text \<open>
  A transport that does not succeed within the window: counted from the world \<open>w\<close> in
  which the call starts, the next \<open>n\<close> exchanges of the request fail, and with their
  pauses of 1 second they take more than the 6 seconds of the window.
\<close>

definition failsThroughout :: "env \<Rightarrow> http_request \<Rightarrow> world \<Rightarrow> nat \<Rightarrow> bool" where
  "failsThroughout e request w n \<longleftrightarrow>
     list_all (\<lambda>i. \<not> exchangeSucceeds (server e (length (sent w) + i) request)) [0..<n]
   \<and> 6 * time_Second
       < sum_list (map (\<lambda>i. elapsed (server e (length (sent w) + i) request) + 1 * time_Second) [0..<n])"

text \<open>The requests that the two query methods hand to \<open>json.Marshal\<close>.\<close>

definition queryRequest :: "string \<Rightarrow> Action \<Rightarrow> PermissionOptions \<Rightarrow> PermissionQueryRequest" where
  "queryRequest resource action po =
     \<lparr>Query_Input = \<lparr>Query_Resource = resource, Query_Action = action, Query_Ids = MemberIds po\<rparr>\<rparr>"

definition filterRequest :: "string list \<Rightarrow> Action \<Rightarrow> PermissionOptions \<Rightarrow> PermissionFilterRequest" where
  "filterRequest resources action po =
     \<lparr>Filter_Input = \<lparr>Filter_Resources = resources, Filter_Action = action, Filter_Ids = MemberIds po\<rparr>\<rparr>"

section \<open>Example environments\<close>

text \<open>
  A small codec and some servers to run the client against. The renderer writes strings
  verbatim, which is what \<open>encoding/json\<close> does for the plain ASCII names used here.
\<close>

fun quoted :: "string \<Rightarrow> string" where
  \<open>quoted s = ''"'' @ s @ ''"''\<close>

fun joinWith :: "string \<Rightarrow> string list \<Rightarrow> string" where
  "joinWith sep [] = []"
| "joinWith sep [x] = x"
| "joinWith sep (x # y # ys) = x @ sep @ joinWith sep (y # ys)"

fun renderJSON :: "json \<Rightarrow> string" where
  "renderJSON JNull = ''null''"
| "renderJSON (JBool b) = (if b then ''true'' else ''false'')"
| "renderJSON (JString s) = quoted s"
| "renderJSON (JArray xs) = ''['' @ joinWith '','' (map renderJSON xs) @ '']''"
| "renderJSON (JObject kvs) =
     ''{'' @ joinWith '','' (map (\<lambda>(k, v). quoted k @ '':'' @ renderJSON v) kvs) @ ''}''"

text \<open>Response bodies as the server of the examples writes them.\<close>

definition bodyTrue :: string where
  \<open>bodyTrue = ''{"result": true}''\<close>

definition bodyFalse :: string where
  \<open>bodyFalse = ''{"result": false}''\<close>

definition bodyAC :: string where
  \<open>bodyAC = ''{"result":["a","c"]}''\<close>

definition bodyCZAC :: string where
  \<open>bodyCZAC = ''{"result":["c","z","a","c"]}''\<close>

text \<open>Request bodies as the encoder of the examples writes them, and options without member ids.\<close>

definition queryBodyNoIds :: string where
  \<open>queryBodyNoIds = ''{"input":{"resource":"x","action":"read"}}''\<close>

definition queryBodyWithIds :: string where
  \<open>queryBodyWithIds = ''{"input":{"resource":"x","action":"read","ids":["u1"]}}''\<close>

definition noMembers :: PermissionOptions where
  "noMembers = \<lparr>MemberIds = [], RaiseForbidden = False, OverrideHeaderValue = []\<rparr>"

definition exampleUnmarshalQuery :: "string \<Rightarrow> error + PermissionQueryResponse" where
  "exampleUnmarshalQuery body =
     (if body = bodyTrue then Inr \<lparr>Query_Result = True\<rparr>
      else if body = bodyFalse then Inr \<lparr>Query_Result = False\<rparr>
      else Inl (New ''invalid character''))"

definition exampleUnmarshalFilter :: "string \<Rightarrow> error + PermissionFilterResponse" where
  "exampleUnmarshalFilter body =
     (if body = bodyAC then Inr \<lparr>Filter_Result = [''a'', ''c'']\<rparr>
      else if body = bodyCZAC then Inr \<lparr>Filter_Result = [''c'', ''z'', ''a'', ''c'']\<rparr>
      else Inl (New ''invalid character''))"

definition exampleEnv :: "(json \<Rightarrow> error + string) \<Rightarrow> (nat \<Rightarrow> exchange) \<Rightarrow> env" where
  "exampleEnv encode answers =
     \<lparr>json_encode = encode,
      json_Unmarshal_query = exampleUnmarshalQuery,
      json_Unmarshal_filter = exampleUnmarshalFilter,
      server = (\<lambda>n request. answers n),
      UserAgent = ''opa-client''\<rparr>"

definition encodeOK :: "json \<Rightarrow> error + string" where
  "encodeOK j = Inr (renderJSON j)"

definition encodeFails :: "json \<Rightarrow> error + string" where
  "encodeFails j = Inl (New ''json: unsupported value'')"

text \<open>A server that is unreachable, and one that answers with \<open>body\<close> from the third exchange on.\<close>

definition unreachable :: "nat \<Rightarrow> exchange" where
  "unreachable n = \<lparr>elapsed = 0, reply = Inl ''connection refused''\<rparr>"

definition answersThird :: "string \<Rightarrow> nat \<Rightarrow> exchange" where
  "answersThird body n =
     (if n < 2 then \<lparr>elapsed = 500000000, reply = Inl ''connection refused''\<rparr>
      else \<lparr>elapsed = 20000000, reply = Inr (200, body)\<rparr>)"

definition answers :: "string \<Rightarrow> nat \<Rightarrow> exchange" where
  "answers body n = \<lparr>elapsed = 20000000, reply = Inr (200, body)\<rparr>"

text \<open>A server whose first answer comes too late, as an error, after 10 seconds.\<close>

definition slow :: "nat \<Rightarrow> exchange" where
  "slow n = (if n = 0 then \<lparr>elapsed = 10000000000, reply = Inl ''timeout awaiting response''\<rparr>
             else \<lparr>elapsed = 20000000, reply = Inr (200, bodyTrue)\<rparr>)"

definition exampleClient :: "string \<Rightarrow> HTTPClient" where
  "exampleClient override =
     \<lparr>address = ''http://opa:8181'',
      permissionQueryPath = ''/v1/data/authz/allow'',
      permissionFilterPath = ''/v1/data/authz/filter_allowed'',
      requestTimeout = 10 * time_Second,
      verbose = False,
      overrideHeaderValue = override\<rparr>"

definition exampleOptions :: "string \<Rightarrow> PermissionOptions" where
  "exampleOptions override =
     \<lparr>MemberIds = [''u1''], RaiseForbidden = False, OverrideHeaderValue = override\<rparr>"

definition world0 :: world where
  "world0 = \<lparr>clock = 0, sent = [], logs = []\<rparr>"

section \<open>The loops over the result slice\<close>

lemma slices_Contains_iff: "slices_Contains s v \<longleftrightarrow> v \<in> set s"
  by (auto simp: slices_Contains_def find_None_iff)

lemma fold_set_True:
  "k \<le> length rs \<Longrightarrow> fold (\<lambda>i rs. rs[i := True]) [0..<k] rs = replicate k True @ drop k rs"
proof (induction k)
  case 0
  then show ?case by simp
next
  case (Suc k)
  then have "fold (\<lambda>i rs. rs[i := True]) [0..<Suc k] rs = (replicate k True @ drop k rs)[k := True]"
    by simp
  also have "\<dots> = replicate k True @ (drop k rs)[0 := True]"
    by (simp add: list_update_append)
  also have "\<dots> = replicate k True @ True # drop (Suc k) rs"
    using Suc.prems by (simp add: Cons_nth_drop_Suc [symmetric])
  also have "\<dots> = replicate (Suc k) True @ drop (Suc k) rs"
    by (simp add: replicate_app_Cons_same)
  finally show ?case .
qed

lemma allowAll_eq: "allowAll results = replicate (length results) True"
  by (simp add: allowAll_def fold_set_True)

lemma markAllowed_fold_length:
  "length (fold (\<lambda>(resourceIdx, resource) rs.
             if slices_Contains allowed resource then rs[resourceIdx := True] else rs)
          (enumerate n resources) results) = length results"
  by (induction resources arbitrary: n results) auto

lemma markAllowed_fold_nth:
  "i < length results \<Longrightarrow>
   fold (\<lambda>(resourceIdx, resource) rs.
             if slices_Contains allowed resource then rs[resourceIdx := True] else rs)
          (enumerate n resources) results ! i =
   (if n \<le> i \<and> i < n + length resources \<and> resources ! (i - n) \<in> set allowed then True
    else results ! i)"
proof (induction resources arbitrary: n results)
  case Nil
  then show ?case by auto
next
  case (Cons r resources)
  show ?case
  proof (cases "i = n")
    case True
    with Cons show ?thesis by (simp add: slices_Contains_iff)
  next
    case False
    with Cons show ?thesis
      by (auto simp: slices_Contains_iff nth_Cons' nth_list_update)
  qed
qed

lemma markAllowed_eq:
  "markAllowed allowed resources (replicate (length resources) False) =
   map (\<lambda>r. r \<in> set allowed) resources"
  by (rule nth_equalityI)
     (simp_all add: markAllowed_def markAllowed_fold_length markAllowed_fold_nth)

section \<open>The retried exchange\<close>

lemma probe_cases:
  fixes e url rb w v
  defines "req \<equiv> transportRequest e url rb"
  defines "ex \<equiv> server e (length (sent w)) req"
  obtains (fail) x where "\<not> exchangeSucceeds ex"
      and "probe e url rb (requestHeaders e) (w, v) =
             (False, logger_log Warn ''Failed to send HTTP request to OPA, retrying'' (onWire w req ex),
              \<lparr>responseBody = [], err = Some x\<rparr>)"
    | (ok) body where "reply ex = Inr (http_StatusOK, body)"
      and "probe e url rb (requestHeaders e) (w, v) =
             (True, onWire w req ex, \<lparr>responseBody = body, err = None\<rparr>)"
proof (cases "reply ex")
  case (Inl msg)
  then show ?thesis
    using fail [of "New msg"]
    by (simp add: probe_def sendHTTPRequest_def exchangeSucceeds_def
        req_def ex_def transportRequest_def Let_def)
next
  case (Inr p)
  obtain status body where p: "p = (status, body)" by (cases p)
  show ?thesis
  proof (cases "status = http_StatusOK")
    case True
    with Inr p show ?thesis
      using ok [of body]
      by (simp add: probe_def sendHTTPRequest_def
          req_def ex_def transportRequest_def Let_def)
  next
    case False
    with Inr p show ?thesis
      using fail [of "New ''unexpected status code''"]
      by (simp add: probe_def sendHTTPRequest_def exchangeSucceeds_def
          req_def ex_def transportRequest_def Let_def)
  qed
qed

lemma retryLoop_probe:
  fixes e url rb
  defines "req \<equiv> transportRequest e url rb"
  assumes interval: "0 < interval"
  shows "\<exists>er w' v' k.
           retryLoop deadline interval (probe e url rb (requestHeaders e)) (w, v) = Some (er, w', v')
         \<and> sent w' = sent w @ replicate k req
         \<and> (clock w \<le> deadline \<longrightarrow> 0 < k)
         \<and> (0 < k \<longrightarrow> clock w + (k - 1) * interval \<le> deadline)
         \<and> (\<forall>i. Suc i < k \<longrightarrow> \<not> exchangeSucceeds (server e (length (sent w) + i) req))
         \<and> (case er of
              None \<Rightarrow> 0 < k \<and> reply (server e (length (sent w) + (k - 1)) req)
                               = Inr (http_StatusOK, responseBody v')
            | Some x \<Rightarrow> x = timedOut \<and> (0 < k \<longrightarrow> \<not> exchangeSucceeds (server e (length (sent w) + (k - 1)) req)))"
proof (induction "Suc deadline - clock w" arbitrary: w v rule: less_induct)
  case less
  let ?P = "probe e url rb (requestHeaders e)"
  let ?ex = "server e (length (sent w)) req"
  show ?case
  proof (cases "deadline < clock w")
    case True
    then have "retryLoop deadline interval ?P (w, v) = Some (Some timedOut, w, v)"
      by (subst retryLoop.simps) simp
    then show ?thesis
      using True
      by (intro exI [of _ "Some timedOut"] exI [of _ w] exI [of _ v] exI [of _ 0]) simp
  next
    case False
    show ?thesis
    proof (rule probe_cases [where e = e and url = url and rb = rb and w = w and v = v], goal_cases fail ok)
      case (ok body)
      have "retryLoop deadline interval ?P (w, v)
              = Some (None, onWire w req ?ex, \<lparr>responseBody = body, err = None\<rparr>)"
        using False ok(2) by (subst retryLoop.simps) (simp add: req_def)
      then show ?thesis
        using ok(1) False
        by (intro exI [of _ None] exI [of _ "onWire w req ?ex"]
            exI [of _ "\<lparr>responseBody = body, err = None\<rparr>"] exI [of _ 1])
          (simp add: onWire_def req_def)
    next
      case (fail x)
      let ?w2 = "time_Sleep interval
                   (logger_log Warn ''Failed to send HTTP request to OPA, retrying'' (onWire w req ?ex))"
      let ?v2 = "\<lparr>responseBody = [], err = Some x\<rparr>"
      have unfold: "retryLoop deadline interval ?P (w, v) = retryLoop deadline interval ?P (?w2, ?v2)"
        using False fail(2) by (subst retryLoop.simps) (simp add: req_def)
      have clock2: "clock ?w2 = clock w + elapsed ?ex + interval"
        and sent2: "sent ?w2 = sent w @ [req]"
        by (simp_all add: time_Sleep_def logger_log_def onWire_def)
      have "Suc deadline - clock ?w2 < Suc deadline - clock w"
        using False interval clock2 by simp
      from less [OF this, of ?v2]
      obtain er w' v' k where
        run: "retryLoop deadline interval ?P (?w2, ?v2) = Some (er, w', v')"
        and sent': "sent w' = sent ?w2 @ replicate k req"
        and win: "0 < k \<longrightarrow> clock ?w2 + (k - 1) * interval \<le> deadline"
        and fails: "\<forall>i. Suc i < k \<longrightarrow> \<not> exchangeSucceeds (server e (length (sent ?w2) + i) req)"
        and last: "case er of
              None \<Rightarrow> 0 < k \<and> reply (server e (length (sent ?w2) + (k - 1)) req)
                               = Inr (http_StatusOK, responseBody v')
            | Some x \<Rightarrow> x = timedOut \<and> (0 < k \<longrightarrow> \<not> exchangeSucceeds (server e (length (sent ?w2) + (k - 1)) req))"
        by blast
      have a: "sent w' = sent w @ replicate (Suc k) req"
        using sent' sent2 by (simp add: replicate_app_Cons_same)
      have b: "clock w + (Suc k - 1) * interval \<le> deadline"
      proof (cases k)
        case 0
        then show ?thesis using False by simp
      next
        case (Suc j)
        then show ?thesis using win clock2 by simp
      qed
      have c: "\<forall>i. Suc i < Suc k \<longrightarrow> \<not> exchangeSucceeds (server e (length (sent w) + i) req)"
      proof (intro allI impI)
        fix i assume i: "Suc i < Suc k"
        show "\<not> exchangeSucceeds (server e (length (sent w) + i) req)"
        proof (cases i)
          case 0
          then show ?thesis using fail(1) by (simp add: req_def)
        next
          case (Suc j)
          then show ?thesis using fails i sent2 by simp
        qed
      qed
      have d: "case er of
              None \<Rightarrow> 0 < Suc k \<and> reply (server e (length (sent w) + (Suc k - 1)) req)
                               = Inr (http_StatusOK, responseBody v')
            | Some x \<Rightarrow> x = timedOut \<and> (0 < Suc k \<longrightarrow> \<not> exchangeSucceeds (server e (length (sent w) + (Suc k - 1)) req))"
      proof (cases k)
        case 0
        with last fail(1) show ?thesis by (auto simp: req_def split: option.splits)
      next
        case (Suc j)
        with last sent2 show ?thesis by (auto split: option.splits)
      qed
      show ?thesis
        using unfold run a b c d
        by (intro exI [of _ er] exI [of _ w'] exI [of _ v'] exI [of _ "Suc k"]) simp
    qed
  qed
qed

lemma retryLoop_succeeds:
  fixes e url rb
  defines "req \<equiv> transportRequest e url rb"
  assumes "\<forall>i<k. \<not> exchangeSucceeds (server e (length (sent w) + i) req)"
    and "reply (server e (length (sent w) + k) req) = Inr (http_StatusOK, body)"
    and "clock w + (\<Sum>i<k. elapsed (server e (length (sent w) + i) req) + interval) \<le> deadline"
  shows "\<exists>w'. retryLoop deadline interval (probe e url rb (requestHeaders e)) (w, v)
                 = Some (None, w', \<lparr>responseBody = body, err = None\<rparr>)
             \<and> sent w' = sent w @ replicate (Suc k) req"
  using assms(2-)
proof (induction k arbitrary: w v)
  case 0
  let ?P = "probe e url rb (requestHeaders e)"
  let ?ex = "server e (length (sent w)) req"
  from 0 have now: "\<not> deadline < clock w" by simp
  show ?case
  proof (rule probe_cases [where e = e and url = url and rb = rb and w = w and v = v], goal_cases fail ok)
    case (fail x)
    with 0 show ?case by (simp add: exchangeSucceeds_def req_def)
  next
    case (ok body')
    with 0 have "body' = body" by (simp add: req_def)
    with ok(2) now have "retryLoop deadline interval ?P (w, v)
              = Some (None, onWire w req ?ex, \<lparr>responseBody = body, err = None\<rparr>)"
      by (subst retryLoop.simps) (simp add: req_def)
    then show ?case by (simp add: onWire_def)
  qed
next
  case (Suc k)
  let ?P = "probe e url rb (requestHeaders e)"
  let ?ex = "server e (length (sent w)) req"
  from Suc.prems(3) have now: "\<not> deadline < clock w" by simp
  from Suc.prems(1) have first: "\<not> exchangeSucceeds ?ex" by auto
  show ?case
  proof (rule probe_cases [where e = e and url = url and rb = rb and w = w and v = v], goal_cases fail ok)
    case (ok body')
    with first show ?case by (simp add: exchangeSucceeds_def req_def)
  next
    case (fail x)
    let ?w2 = "time_Sleep interval
                 (logger_log Warn ''Failed to send HTTP request to OPA, retrying'' (onWire w req ?ex))"
    let ?v2 = "\<lparr>responseBody = [], err = Some x\<rparr>"
    have unfold: "retryLoop deadline interval ?P (w, v) = retryLoop deadline interval ?P (?w2, ?v2)"
      using now fail(2) by (subst retryLoop.simps) (simp add: req_def)
    have clock2: "clock ?w2 = clock w + elapsed ?ex + interval"
      and sent2: "sent ?w2 = sent w @ [req]"
      by (simp_all add: time_Sleep_def logger_log_def onWire_def)
    have h1: "\<forall>i<k. \<not> exchangeSucceeds (server e (length (sent ?w2) + i) req)"
      using Suc.prems(1) sent2 by auto
    have h2: "reply (server e (length (sent ?w2) + k) req) = Inr (http_StatusOK, body)"
      using Suc.prems(2) sent2 by simp
    have "(\<Sum>i<Suc k. elapsed (server e (length (sent w) + i) req) + interval)
            = (elapsed ?ex + interval)
              + (\<Sum>i<k. elapsed (server e (length (sent ?w2) + i) req) + interval)"
      unfolding sent2 by (subst sum.lessThan_Suc_shift) simp
    with Suc.prems(3) clock2
    have h3: "clock ?w2 + (\<Sum>i<k. elapsed (server e (length (sent ?w2) + i) req) + interval) \<le> deadline"
      by linarith
    from Suc.IH [OF h1 h2 h3, of ?v2] obtain w' where
      "retryLoop deadline interval ?P (?w2, ?v2) = Some (None, w', \<lparr>responseBody = body, err = None\<rparr>)"
      "sent w' = sent ?w2 @ replicate (Suc k) req"
      by blast
    with unfold sent2 show ?case
      by (simp add: replicate_app_Cons_same)
  qed
qed

text \<open>The call of the retrier as both query methods make it.\<close>

lemma roundTrip:
  fixes e url rb
  defines "req \<equiv> transportRequest e url rb"
  shows "\<exists>er w' v' k.
           retryUntilSuccessful (6 * time_Second) (1 * time_Second)
             (probe e url rb (requestHeaders e)) (w, v) = Some (er, w', v')
         \<and> sent w' = sent w @ replicate k req
         \<and> 0 < k \<and> k \<le> 7
         \<and> (\<forall>i. Suc i < k \<longrightarrow> \<not> exchangeSucceeds (server e (length (sent w) + i) req))
         \<and> (case er of
              None \<Rightarrow> reply (server e (length (sent w) + (k - 1)) req)
                               = Inr (http_StatusOK, responseBody v')
            | Some x \<Rightarrow> x = timedOut \<and> \<not> exchangeSucceeds (server e (length (sent w) + (k - 1)) req))"
proof -
  have "0 < 1 * time_Second" by (simp add: time_Second_def)
  from retryLoop_probe [OF this, of "clock w + 6 * time_Second" e url rb w v]
  obtain er w' v' k where
    run: "retryLoop (clock w + 6 * time_Second) (1 * time_Second)
            (probe e url rb (requestHeaders e)) (w, v) = Some (er, w', v')"
    and sent': "sent w' = sent w @ replicate k req"
    and pos: "0 < k"
    and win: "clock w + (k - 1) * (1 * time_Second) \<le> clock w + 6 * time_Second"
    and fails: "\<forall>i. Suc i < k \<longrightarrow> \<not> exchangeSucceeds (server e (length (sent w) + i) req)"
    and last: "case er of
              None \<Rightarrow> 0 < k \<and> reply (server e (length (sent w) + (k - 1)) req)
                               = Inr (http_StatusOK, responseBody v')
            | Some x \<Rightarrow> x = timedOut \<and> (0 < k \<longrightarrow> \<not> exchangeSucceeds (server e (length (sent w) + (k - 1)) req))"
    unfolding req_def by force
  from win have "k \<le> 7" by (simp add: time_Second_def)
  with run sent' pos fails last show ?thesis
    by (intro exI [of _ er] exI [of _ w'] exI [of _ v'] exI [of _ k])
       (auto simp: retryUntilSuccessful_def split: option.splits)
qed

lemma roundTrip_succeeds:
  fixes e url rb
  defines "req \<equiv> transportRequest e url rb"
  assumes "failsThenSucceeds e req w k body"
  shows "\<exists>w'. retryUntilSuccessful (6 * time_Second) (1 * time_Second)
                 (probe e url rb (requestHeaders e)) (w, v)
                 = Some (None, w', \<lparr>responseBody = body, err = None\<rparr>)
             \<and> sent w' = sent w @ replicate (Suc k) req"
proof -
  from assms(2) have h1: "\<forall>i<k. \<not> exchangeSucceeds (server e (length (sent w) + i) req)"
    and h2: "reply (server e (length (sent w) + k) req) = Inr (http_StatusOK, body)"
    and h3: "sum_list (map (\<lambda>i. elapsed (server e (length (sent w) + i) req) + 1 * time_Second) [0..<k])
       \<le> 6 * time_Second"
    by (simp_all add: failsThenSucceeds_def list_all_iff)
  have "sum_list (map (\<lambda>i. elapsed (server e (length (sent w) + i) req) + 1 * time_Second) [0..<k])
      = (\<Sum>i<k. elapsed (server e (length (sent w) + i) req) + 1 * time_Second)"
    by (simp add: interv_sum_list_conv_sum_set_nat atLeast0LessThan)
  with h3 have h3': "clock w + (\<Sum>i<k. elapsed (server e (length (sent w) + i) req) + 1 * time_Second)
       \<le> clock w + 6 * time_Second"
    by simp
  from retryLoop_succeeds [OF h1 [unfolded req_def] h2 [unfolded req_def] h3' [unfolded req_def], of v]
  show ?thesis
    by (simp add: retryUntilSuccessful_def req_def)
qed

lemma retryLoop_times_out:
  fixes e url rb
  defines "req \<equiv> transportRequest e url rb"
  assumes "\<forall>i<n. \<not> exchangeSucceeds (server e (length (sent w) + i) req)"
    and "deadline < clock w + (\<Sum>i<n. elapsed (server e (length (sent w) + i) req) + interval)"
  shows "\<exists>w' v'. retryLoop deadline interval (probe e url rb (requestHeaders e)) (w, v)
                 = Some (Some timedOut, w', v')"
  using assms(2-)
proof (induction n arbitrary: w v)
  case 0
  then have "deadline < clock w" by simp
  then have "retryLoop deadline interval (probe e url rb (requestHeaders e)) (w, v)
               = Some (Some timedOut, w, v)"
    by (subst retryLoop.simps) simp
  then show ?case by blast
next
  case (Suc n)
  let ?P = "probe e url rb (requestHeaders e)"
  let ?ex = "server e (length (sent w)) req"
  show ?case
  proof (cases "deadline < clock w")
    case True
    then have "retryLoop deadline interval ?P (w, v) = Some (Some timedOut, w, v)"
      by (subst retryLoop.simps) simp
    then show ?thesis by blast
  next
    case False
    from Suc.prems(1) have first: "\<not> exchangeSucceeds ?ex" by auto
    show ?thesis
    proof (rule probe_cases [where e = e and url = url and rb = rb and w = w and v = v], goal_cases fail ok)
      case (ok body')
      with first show ?case by (simp add: exchangeSucceeds_def req_def)
    next
      case (fail x)
      let ?w2 = "time_Sleep interval
                   (logger_log Warn ''Failed to send HTTP request to OPA, retrying'' (onWire w req ?ex))"
      let ?v2 = "\<lparr>responseBody = [], err = Some x\<rparr>"
      have unfold: "retryLoop deadline interval ?P (w, v) = retryLoop deadline interval ?P (?w2, ?v2)"
        using False fail(2) by (subst retryLoop.simps) (simp add: req_def)
      have clock2: "clock ?w2 = clock w + elapsed ?ex + interval"
        and sent2: "sent ?w2 = sent w @ [req]"
        by (simp_all add: time_Sleep_def logger_log_def onWire_def)
      have h1: "\<forall>i<n. \<not> exchangeSucceeds (server e (length (sent ?w2) + i) req)"
        using Suc.prems(1) sent2 by auto
      have "(\<Sum>i<Suc n. elapsed (server e (length (sent w) + i) req) + interval)
              = (elapsed ?ex + interval)
                + (\<Sum>i<n. elapsed (server e (length (sent ?w2) + i) req) + interval)"
        unfolding sent2 by (subst sum.lessThan_Suc_shift) simp
      with Suc.prems(2) clock2
      have h2: "deadline < clock ?w2 + (\<Sum>i<n. elapsed (server e (length (sent ?w2) + i) req) + interval)"
        by linarith
      from Suc.IH [OF h1 h2, of ?v2] unfold show ?case by simp
    qed
  qed
qed

lemma roundTrip_times_out:
  fixes e url rb
  defines "req \<equiv> transportRequest e url rb"
  assumes "failsThroughout e req w n"
  shows "\<exists>w' v'. retryUntilSuccessful (6 * time_Second) (1 * time_Second)
                    (probe e url rb (requestHeaders e)) (w, v)
                  = Some (Some timedOut, w', v')"
proof -
  from assms(2) have h1: "\<forall>i<n. \<not> exchangeSucceeds (server e (length (sent w) + i) req)"
    and h2: "6 * time_Second
       < sum_list (map (\<lambda>i. elapsed (server e (length (sent w) + i) req) + 1 * time_Second) [0..<n])"
    by (simp_all add: failsThroughout_def list_all_iff)
  have "sum_list (map (\<lambda>i. elapsed (server e (length (sent w) + i) req) + 1 * time_Second) [0..<n])
      = (\<Sum>i<n. elapsed (server e (length (sent w) + i) req) + 1 * time_Second)"
    by (simp add: interv_sum_list_conv_sum_set_nat atLeast0LessThan)
  with h2 have h2': "clock w + 6 * time_Second
       < clock w + (\<Sum>i<n. elapsed (server e (length (sent w) + i) req) + 1 * time_Second)"
    by simp
  from retryLoop_times_out [OF h1 [unfolded req_def] h2' [unfolded req_def], of v]
  show ?thesis
    by (simp add: retryUntilSuccessful_def)
qed

section \<open>The two query methods on the network path\<close>

lemma sent_log_verbose: "sent (log_verbose c lvl msg w) = sent w"
  by (simp add: log_verbose_def logger_log_def)

lemma failsThenSucceeds_log_verbose:
  "failsThenSucceeds e req (log_verbose c lvl msg w) k body = failsThenSucceeds e req w k body"
  by (simp add: failsThenSucceeds_def sent_log_verbose)

lemma QueryPermissions_exchange:
  assumes nb: "overrideMatches c (Some po) = Some False"
    and enc: "json_Marshal_query e (queryRequest resource action po) = Inr rb"
  defines "req \<equiv> transportRequest e (address c @ permissionQueryPath c) rb"
  shows "\<exists>r w' k.
           QueryPermissions e c resource action (Some po) w = Some (r, w')
         \<and> sent w' = sent w @ replicate k req \<and> 0 < k \<and> k \<le> 7
         \<and> (\<forall>i. Suc i < k \<longrightarrow> \<not> exchangeSucceeds (server e (length (sent w) + i) req))
         \<and> ((\<not> exchangeSucceeds (server e (length (sent w) + (k - 1)) req)
              \<and> r = Return False (Some (Wrap timedOut ''Failed to send HTTP request to OPA'')))
            \<or> (\<exists>body. reply (server e (length (sent w) + (k - 1)) req) = Inr (http_StatusOK, body)
                 \<and> r = (case json_Unmarshal_query e body of
                          Inl er \<Rightarrow> Return False (Some (Wrap er ''Failed to unmarshal response body''))
                        | Inr resp \<Rightarrow> Return (Query_Result resp) None)))"
proof -
  let ?w1 = "log_verbose c Info ''Sending request to OPA'' w"
  let ?v0 = "\<lparr>responseBody = [], err = None\<rparr>"
  from roundTrip [of e "address c @ permissionQueryPath c" rb ?w1 ?v0]
  obtain er w2 v k where
    run: "retryUntilSuccessful (6 * time_Second) (1 * time_Second)
            (probe e (address c @ permissionQueryPath c) rb (requestHeaders e)) (?w1, ?v0)
          = Some (er, w2, v)"
    and sent2: "sent w2 = sent w @ replicate k req"
    and k: "0 < k" "k \<le> 7"
    and fails: "\<forall>i. Suc i < k \<longrightarrow> \<not> exchangeSucceeds (server e (length (sent w) + i) req)"
    and last: "case er of
              None \<Rightarrow> reply (server e (length (sent w) + (k - 1)) req)
                               = Inr (http_StatusOK, responseBody v)
            | Some x \<Rightarrow> x = timedOut \<and> \<not> exchangeSucceeds (server e (length (sent w) + (k - 1)) req)"
    unfolding req_def sent_log_verbose by blast
  show ?thesis
  proof (cases er)
    case None
    let ?w3 = "log_verbose c Info ''Received response from OPA'' w2"
    show ?thesis
    proof (cases "json_Unmarshal_query e (responseBody v)")
      case (Inl x)
      with None nb enc run have
        "QueryPermissions e c resource action (Some po) w
           = Some (Return False (Some (Wrap x ''Failed to unmarshal response body'')), ?w3)"
        by (simp add: QueryPermissions_def queryRequest_def)
      with Inl None sent2 k fails last show ?thesis
        by (intro exI [of _ "Return False (Some (Wrap x ''Failed to unmarshal response body''))"]
            exI [of _ ?w3] exI [of _ k]) (simp add: sent_log_verbose)
    next
      case (Inr resp)
      let ?w4 = "log_verbose c Info ''Successfully unmarshalled permission response'' ?w3"
      from Inr None nb enc run have
        "QueryPermissions e c resource action (Some po) w
           = Some (Return (Query_Result resp) None, ?w4)"
        by (simp add: QueryPermissions_def queryRequest_def)
      with Inr None sent2 k fails last show ?thesis
        by (intro exI [of _ "Return (Query_Result resp) None"]
            exI [of _ ?w4] exI [of _ k]) (simp add: sent_log_verbose)
    qed
  next
    case (Some x)
    let ?w3 = "log_verbose c Error ''Failed to send HTTP request to OPA'' w2"
    from Some last have x: "x = timedOut" by simp
    with Some nb enc run have
      "QueryPermissions e c resource action (Some po) w
         = Some (Return False (Some (Wrap timedOut ''Failed to send HTTP request to OPA'')), ?w3)"
      by (simp add: QueryPermissions_def queryRequest_def)
    with Some sent2 k fails last show ?thesis
      by (intro exI [of _ "Return False (Some (Wrap timedOut ''Failed to send HTTP request to OPA''))"]
          exI [of _ ?w3] exI [of _ k]) (simp add: sent_log_verbose)
  qed
qed

lemma QueryPermissions_succeeds:
  assumes nb: "overrideMatches c (Some po) = Some False"
    and enc: "json_Marshal_query e (queryRequest resource action po) = Inr rb"
    and net: "failsThenSucceeds e (transportRequest e (address c @ permissionQueryPath c) rb) w k body"
  shows "\<exists>w'. QueryPermissions e c resource action (Some po) w
                 = Some (case json_Unmarshal_query e body of
                           Inl er \<Rightarrow> Return False (Some (Wrap er ''Failed to unmarshal response body''))
                         | Inr resp \<Rightarrow> Return (Query_Result resp) None, w')
             \<and> sent w' = sent w @ replicate (Suc k)
                                     (transportRequest e (address c @ permissionQueryPath c) rb)"
proof -
  let ?w1 = "log_verbose c Info ''Sending request to OPA'' w"
  let ?v0 = "\<lparr>responseBody = [], err = None\<rparr>"
  from net have "failsThenSucceeds e (transportRequest e (address c @ permissionQueryPath c) rb) ?w1 k body"
    by (simp add: failsThenSucceeds_log_verbose)
  from roundTrip_succeeds [OF this, of ?v0]
  obtain w2 where
    run: "retryUntilSuccessful (6 * time_Second) (1 * time_Second)
            (probe e (address c @ permissionQueryPath c) rb (requestHeaders e)) (?w1, ?v0)
          = Some (None, w2, \<lparr>responseBody = body, err = None\<rparr>)"
    and sent2: "sent w2 = sent w @ replicate (Suc k)
                                     (transportRequest e (address c @ permissionQueryPath c) rb)"
    unfolding sent_log_verbose by blast
  show ?thesis
  proof (cases "json_Unmarshal_query e body")
    case (Inl x)
    with nb enc run sent2 show ?thesis
      by (simp add: QueryPermissions_def queryRequest_def sent_log_verbose)
  next
    case (Inr resp)
    with nb enc run sent2 show ?thesis
      by (simp add: QueryPermissions_def queryRequest_def sent_log_verbose)
  qed
qed

lemma QueryPermissionsMultiResources_exchange:
  assumes nb: "overrideMatches c (Some po) = Some False"
    and enc: "json_Marshal_filter e (filterRequest resources action po) = Inr rb"
  defines "req \<equiv> transportRequest e (address c @ permissionFilterPath c) rb"
  shows "\<exists>r w' k.
           QueryPermissionsMultiResources e c resources action (Some po) w = Some (r, w')
         \<and> sent w' = sent w @ replicate k req \<and> 0 < k \<and> k \<le> 7
         \<and> (\<forall>i. Suc i < k \<longrightarrow> \<not> exchangeSucceeds (server e (length (sent w) + i) req))
         \<and> ((\<not> exchangeSucceeds (server e (length (sent w) + (k - 1)) req)
              \<and> r = Return None (Some (Wrap timedOut ''Failed to send HTTP request to OPA'')))
            \<or> (\<exists>body. reply (server e (length (sent w) + (k - 1)) req) = Inr (http_StatusOK, body)
                 \<and> r = (case json_Unmarshal_filter e body of
                          Inl er \<Rightarrow> Return None (Some (Wrap er ''Failed to unmarshal response body''))
                        | Inr resp \<Rightarrow>
                            Return (Some (map (\<lambda>x. x \<in> set (Filter_Result resp)) resources)) None)))"
proof -
  let ?w1 = "log_verbose c Info ''Sending request to OPA'' w"
  let ?v0 = "\<lparr>responseBody = [], err = None\<rparr>"
  from roundTrip [of e "address c @ permissionFilterPath c" rb ?w1 ?v0]
  obtain er w2 v k where
    run: "retryUntilSuccessful (6 * time_Second) (1 * time_Second)
            (probe e (address c @ permissionFilterPath c) rb (requestHeaders e)) (?w1, ?v0)
          = Some (er, w2, v)"
    and sent2: "sent w2 = sent w @ replicate k req"
    and k: "0 < k" "k \<le> 7"
    and fails: "\<forall>i. Suc i < k \<longrightarrow> \<not> exchangeSucceeds (server e (length (sent w) + i) req)"
    and last: "case er of
              None \<Rightarrow> reply (server e (length (sent w) + (k - 1)) req)
                               = Inr (http_StatusOK, responseBody v)
            | Some x \<Rightarrow> x = timedOut \<and> \<not> exchangeSucceeds (server e (length (sent w) + (k - 1)) req)"
    unfolding req_def sent_log_verbose by blast
  show ?thesis
  proof (cases er)
    case None
    let ?w3 = "log_verbose c Info ''Received response from OPA'' w2"
    show ?thesis
    proof (cases "json_Unmarshal_filter e (responseBody v)")
      case (Inl x)
      with None nb enc run have
        "QueryPermissionsMultiResources e c resources action (Some po) w
           = Some (Return None (Some (Wrap x ''Failed to unmarshal response body'')), ?w3)"
        by (simp add: QueryPermissionsMultiResources_def filterRequest_def)
      with Inl None sent2 k fails last show ?thesis
        by (intro exI [of _ "Return None (Some (Wrap x ''Failed to unmarshal response body''))"]
            exI [of _ ?w3] exI [of _ k]) (simp add: sent_log_verbose)
    next
      case (Inr resp)
      let ?w4 = "log_verbose c Info ''Successfully unmarshalled permission filter response'' ?w3"
      from Inr None nb enc run have
        "QueryPermissionsMultiResources e c resources action (Some po) w
           = Some (Return (Some (map (\<lambda>x. x \<in> set (Filter_Result resp)) resources)) None, ?w4)"
        by (simp add: QueryPermissionsMultiResources_def filterRequest_def markAllowed_eq)
      with Inr None sent2 k fails last show ?thesis
        by (intro exI [of _ "Return (Some (map (\<lambda>x. x \<in> set (Filter_Result resp)) resources)) None"]
            exI [of _ ?w4] exI [of _ k]) (simp add: sent_log_verbose)
    qed
  next
    case (Some x)
    let ?w3 = "log_verbose c Error ''Failed to send HTTP request to OPA'' w2"
    from Some last have x: "x = timedOut" by simp
    with Some nb enc run have
      "QueryPermissionsMultiResources e c resources action (Some po) w
         = Some (Return None (Some (Wrap timedOut ''Failed to send HTTP request to OPA'')), ?w3)"
      by (simp add: QueryPermissionsMultiResources_def filterRequest_def)
    with Some sent2 k fails last show ?thesis
      by (intro exI [of _ "Return None (Some (Wrap timedOut ''Failed to send HTTP request to OPA''))"]
          exI [of _ ?w3] exI [of _ k]) (simp add: sent_log_verbose)
  qed
qed

lemma QueryPermissionsMultiResources_succeeds:
  assumes nb: "overrideMatches c (Some po) = Some False"
    and enc: "json_Marshal_filter e (filterRequest resources action po) = Inr rb"
    and net: "failsThenSucceeds e (transportRequest e (address c @ permissionFilterPath c) rb) w k body"
  shows "\<exists>w'. QueryPermissionsMultiResources e c resources action (Some po) w
                 = Some (case json_Unmarshal_filter e body of
                           Inl er \<Rightarrow> Return None (Some (Wrap er ''Failed to unmarshal response body''))
                         | Inr resp \<Rightarrow>
                             Return (Some (map (\<lambda>x. x \<in> set (Filter_Result resp)) resources)) None, w')
             \<and> sent w' = sent w @ replicate (Suc k)
                                     (transportRequest e (address c @ permissionFilterPath c) rb)"
proof -
  let ?w1 = "log_verbose c Info ''Sending request to OPA'' w"
  let ?v0 = "\<lparr>responseBody = [], err = None\<rparr>"
  from net have "failsThenSucceeds e (transportRequest e (address c @ permissionFilterPath c) rb) ?w1 k body"
    by (simp add: failsThenSucceeds_log_verbose)
  from roundTrip_succeeds [OF this, of ?v0]
  obtain w2 where
    run: "retryUntilSuccessful (6 * time_Second) (1 * time_Second)
            (probe e (address c @ permissionFilterPath c) rb (requestHeaders e)) (?w1, ?v0)
          = Some (None, w2, \<lparr>responseBody = body, err = None\<rparr>)"
    and sent2: "sent w2 = sent w @ replicate (Suc k)
                                     (transportRequest e (address c @ permissionFilterPath c) rb)"
    unfolding sent_log_verbose by blast
  show ?thesis
  proof (cases "json_Unmarshal_filter e body")
    case (Inl x)
    with nb enc run sent2 show ?thesis
      by (simp add: QueryPermissionsMultiResources_def filterRequest_def sent_log_verbose)
  next
    case (Inr resp)
    with nb enc run sent2 show ?thesis
      by (simp add: QueryPermissionsMultiResources_def filterRequest_def sent_log_verbose markAllowed_eq)
  qed
qed

lemma failsThroughout_log_verbose:
  "failsThroughout e req (log_verbose c lvl msg w) n = failsThroughout e req w n"
  by (simp add: failsThroughout_def sent_log_verbose)

lemma QueryPermissions_times_out:
  assumes nb: "overrideMatches c (Some po) = Some False"
    and enc: "json_Marshal_query e (queryRequest resource action po) = Inr rb"
    and net: "failsThroughout e (transportRequest e (address c @ permissionQueryPath c) rb) w n"
  shows "\<exists>w'. QueryPermissions e c resource action (Some po) w
                 = Some (Return False (Some (Wrap timedOut ''Failed to send HTTP request to OPA'')), w')"
proof -
  let ?w1 = "log_verbose c Info ''Sending request to OPA'' w"
  let ?v0 = "\<lparr>responseBody = [], err = None\<rparr>"
  from net have "failsThroughout e (transportRequest e (address c @ permissionQueryPath c) rb) ?w1 n"
    by (simp add: failsThroughout_log_verbose)
  from roundTrip_times_out [OF this, of ?v0]
  obtain w2 v2 where
    "retryUntilSuccessful (6 * time_Second) (1 * time_Second)
            (probe e (address c @ permissionQueryPath c) rb (requestHeaders e)) (?w1, ?v0)
          = Some (Some timedOut, w2, v2)"
    by blast
  with nb enc show ?thesis
    by (simp add: QueryPermissions_def queryRequest_def)
qed

lemma QueryPermissionsMultiResources_times_out:
  assumes nb: "overrideMatches c (Some po) = Some False"
    and enc: "json_Marshal_filter e (filterRequest resources action po) = Inr rb"
    and net: "failsThroughout e (transportRequest e (address c @ permissionFilterPath c) rb) w n"
  shows "\<exists>w'. QueryPermissionsMultiResources e c resources action (Some po) w
                 = Some (Return None (Some (Wrap timedOut ''Failed to send HTTP request to OPA'')), w')"
proof -
  let ?w1 = "log_verbose c Info ''Sending request to OPA'' w"
  let ?v0 = "\<lparr>responseBody = [], err = None\<rparr>"
  from net have "failsThroughout e (transportRequest e (address c @ permissionFilterPath c) rb) ?w1 n"
    by (simp add: failsThroughout_log_verbose)
  from roundTrip_times_out [OF this, of ?v0]
  obtain w2 v2 where
    "retryUntilSuccessful (6 * time_Second) (1 * time_Second)
            (probe e (address c @ permissionFilterPath c) rb (requestHeaders e)) (?w1, ?v0)
          = Some (Some timedOut, w2, v2)"
    by blast
  with nb enc show ?thesis
    by (simp add: QueryPermissionsMultiResources_def filterRequest_def)
qed

section \<open>Running the examples\<close>

text \<open>The examples: no override is configured and the options carry none.\<close>

lemma example_no_bypass:
  "overrideMatches (exampleClient []) (Some (exampleOptions [])) = Some False"
  by (simp add: overrideMatches_def exampleClient_def)

lemma example_encodeOK_query:
  "json_Marshal_query (exampleEnv encodeOK answers') (queryRequest resource action po)
     = Inr (renderJSON (json_of_PermissionQueryRequest (queryRequest resource action po)))"
  by (simp add: json_Marshal_query_def exampleEnv_def encodeOK_def)

lemma example_encodeOK_filter:
  "json_Marshal_filter (exampleEnv encodeOK answers') (filterRequest resources action po)
     = Inr (renderJSON (json_of_PermissionFilterRequest (filterRequest resources action po)))"
  by (simp add: json_Marshal_filter_def exampleEnv_def encodeOK_def)

lemma example_encodeFails_query:
  "json_Marshal_query (exampleEnv encodeFails answers') (queryRequest resource action po)
     = Inl (New ''json: unsupported value'')"
  by (simp add: json_Marshal_query_def exampleEnv_def encodeFails_def)

lemma example_encodeFails_filter:
  "json_Marshal_filter (exampleEnv encodeFails answers') (filterRequest resources action po)
     = Inl (New ''json: unsupported value'')"
  by (simp add: json_Marshal_filter_def exampleEnv_def encodeFails_def)

lemma example_answers:
  "failsThenSucceeds (exampleEnv encode (answers body)) request world0 0 body"
  by (simp add: failsThenSucceeds_def exampleEnv_def answers_def http_StatusOK_def)

lemma example_answersThird:
  "failsThenSucceeds (exampleEnv encode (answersThird body)) request world0 2 body"
  by (simp add: failsThenSucceeds_def exampleEnv_def answersThird_def http_StatusOK_def
      exchangeSucceeds_def world0_def time_Second_def numeral_2_eq_2)

lemma example_garbage_query:
  "json_Unmarshal_query (exampleEnv encode answers') ''<html>'' = Inl (New ''invalid character'')"
  by (simp add: exampleEnv_def exampleUnmarshalQuery_def bodyTrue_def bodyFalse_def)

lemma example_garbage_filter:
  "json_Unmarshal_filter (exampleEnv encode answers') ''<html>'' = Inl (New ''invalid character'')"
  by (simp add: exampleEnv_def exampleUnmarshalFilter_def bodyAC_def bodyCZAC_def)

lemma example_unreachable_throughout:
  "failsThroughout (exampleEnv encode unreachable) request world0 7"
  by (simp add: failsThroughout_def exampleEnv_def unreachable_def exchangeSucceeds_def
      time_Second_def sum_list_triv list_all_iff)

lemma example_slow_throughout:
  "failsThroughout (exampleEnv encode slow) request world0 1"
  by (simp add: failsThroughout_def exampleEnv_def slow_def exchangeSucceeds_def
      time_Second_def world0_def)


lemma example_decode_true:
  "json_Unmarshal_query (exampleEnv encode answers') bodyTrue = Inr \<lparr>Query_Result = True\<rparr>"
  by (simp add: exampleEnv_def exampleUnmarshalQuery_def)

lemma example_decode_false:
  "json_Unmarshal_query (exampleEnv encode answers') bodyFalse = Inr \<lparr>Query_Result = False\<rparr>"
  by (simp add: exampleEnv_def exampleUnmarshalQuery_def bodyTrue_def bodyFalse_def)

lemma example_decode_ac:
  "json_Unmarshal_filter (exampleEnv encode answers') bodyAC = Inr \<lparr>Filter_Result = [''a'', ''c'']\<rparr>"
  by (simp add: exampleEnv_def exampleUnmarshalFilter_def)

lemma example_decode_czac:
  "json_Unmarshal_filter (exampleEnv encode answers') bodyCZAC
     = Inr \<lparr>Filter_Result = [''c'', ''z'', ''a'', ''c'']\<rparr>"
  by (simp add: exampleEnv_def exampleUnmarshalFilter_def bodyAC_def bodyCZAC_def)

lemma example_filter_run:
  "\<exists>w'. QueryPermissionsMultiResources (exampleEnv encodeOK (answers bodyAC))
           (exampleClient []) [''a'', ''b'', ''c''] ActionRead (Some (exampleOptions [])) world0
         = Some (Return (Some [True, False, True]) None, w')"
proof -
  let ?e = "exampleEnv encodeOK (answers bodyAC)"
  let ?rb = "renderJSON (json_of_PermissionFilterRequest
               (filterRequest [''a'', ''b'', ''c''] ActionRead (exampleOptions [])))"
  have nb: "overrideMatches (exampleClient []) (Some (exampleOptions [])) = Some False"
    by (simp add: overrideMatches_def exampleClient_def)
  have enc: "json_Marshal_filter ?e (filterRequest [''a'', ''b'', ''c''] ActionRead (exampleOptions []))
               = Inr ?rb"
    by (simp add: json_Marshal_filter_def exampleEnv_def encodeOK_def)
  have net: "failsThenSucceeds ?e
               (transportRequest ?e (address (exampleClient []) @ permissionFilterPath (exampleClient [])) ?rb)
               world0 0 bodyAC"
    by (simp add: failsThenSucceeds_def exampleEnv_def answers_def http_StatusOK_def)
  have dec: "json_Unmarshal_filter ?e bodyAC = Inr \<lparr>Filter_Result = [''a'', ''c'']\<rparr>"
    by (simp add: exampleEnv_def exampleUnmarshalFilter_def)
  from QueryPermissionsMultiResources_succeeds [OF nb enc net] obtain w' where
    "QueryPermissionsMultiResources ?e (exampleClient []) [''a'', ''b'', ''c''] ActionRead
       (Some (exampleOptions [])) world0
     = Some (case json_Unmarshal_filter ?e bodyAC of
               Inl er \<Rightarrow> Return None (Some (Wrap er ''Failed to unmarshal response body''))
             | Inr resp \<Rightarrow>
                 Return (Some (map (\<lambda>x. x \<in> set (Filter_Result resp)) [''a'', ''b'', ''c''])) None, w')"
    by blast
  then have "QueryPermissionsMultiResources ?e (exampleClient []) [''a'', ''b'', ''c''] ActionRead
       (Some (exampleOptions [])) world0 = Some (Return (Some [True, False, True]) None, w')"
    by (simp add: dec)
  then show ?thesis by blast
qed

section \<open>Properties of the client\<close>

lemma overrideMatches_True:
  "overrideHeaderValue c \<noteq> [] \<Longrightarrow> OverrideHeaderValue po = overrideHeaderValue c
     \<Longrightarrow> overrideMatches c (Some po) = Some True"
  by (simp add: overrideMatches_def)

text \<open>
  C2. If the configured override value is non-empty and equals the value carried by the
  options, \<open>QueryPermissions\<close> returns \<open>(true, nil)\<close> and
  \<open>QueryPermissionsMultiResources\<close> returns a slice of \<open>len(resources)\<close> elements that
  are all true, with a nil error. The world is returned as it was: no request is put on
  the wire, whatever the encoder and the server of the environment would do.
\<close>

theorem bypass_allows_everything:
  assumes "overrideHeaderValue c \<noteq> []"
    and "OverrideHeaderValue po = overrideHeaderValue c"
  shows "QueryPermissions e c resource action (Some po) w = Some (Return True None, w)
       \<and> QueryPermissionsMultiResources e c resources action (Some po) w
           = Some (Return (Some (replicate (length resources) True)) None, w)"
  using overrideMatches_True [OF assms]
  by (simp add: QueryPermissions_def QueryPermissionsMultiResources_def allowAll_eq)

theorem bypass_allows_everything_witness:
  "overrideHeaderValue (exampleClient ''secret'') \<noteq> []
   \<and> OverrideHeaderValue (exampleOptions ''secret'') = overrideHeaderValue (exampleClient ''secret'')
   \<and> QueryPermissions (exampleEnv encodeFails unreachable) (exampleClient ''secret'')
        ''x'' ActionRead (Some (exampleOptions ''secret'')) world0
       = Some (Return True None, world0)
   \<and> QueryPermissionsMultiResources (exampleEnv encodeFails unreachable) (exampleClient ''secret'')
        [''a'', ''b'', ''c''] ActionRead (Some (exampleOptions ''secret'')) world0
       = Some (Return (Some [True, True, True]) None, world0)"
proof -
  have h1: "overrideHeaderValue (exampleClient ''secret'') \<noteq> []"
    by (simp add: exampleClient_def)
  have h2: "OverrideHeaderValue (exampleOptions ''secret'') = overrideHeaderValue (exampleClient ''secret'')"
    by (simp add: exampleClient_def exampleOptions_def)
  show ?thesis
    using h1 h2
      bypass_allows_everything [OF h1 h2, of "exampleEnv encodeFails unreachable"
        "''x''" ActionRead world0 "[''a'', ''b'', ''c'']"]
    by (simp add: numeral_3_eq_3)
qed

lemma overrideMatches_Some: "overrideMatches c (Some po) \<noteq> None"
  by (auto simp: overrideMatches_def)

lemma QueryPermissions_nil_options:
  "QueryPermissions e c resource action None w = Some (Panic nilDereference, w)"
  by (simp add: QueryPermissions_def overrideMatches_def)

lemma QueryPermissionsMultiResources_nil_options:
  "QueryPermissionsMultiResources e c resources action None w = Some (Panic nilDereference, w)"
  by (simp add: QueryPermissionsMultiResources_def overrideMatches_def)

lemma QueryPermissions_bypass:
  "overrideMatches c (Some po) = Some True
     \<Longrightarrow> QueryPermissions e c resource action (Some po) w = Some (Return True None, w)"
  by (simp add: QueryPermissions_def)

lemma QueryPermissionsMultiResources_bypass:
  "overrideMatches c (Some po) = Some True
     \<Longrightarrow> QueryPermissionsMultiResources e c resources action (Some po) w
           = Some (Return (Some (replicate (length resources) True)) None, w)"
  by (simp add: QueryPermissionsMultiResources_def allowAll_eq)

lemma QueryPermissions_encode_fails:
  "overrideMatches c (Some po) = Some False
     \<Longrightarrow> json_Marshal_query e (queryRequest resource action po) = Inl er
     \<Longrightarrow> QueryPermissions e c resource action (Some po) w
           = Some (Return False (Some (Wrap er ''Failed to generate request body'')), w)"
  by (simp add: QueryPermissions_def queryRequest_def)

lemma QueryPermissionsMultiResources_encode_fails:
  "overrideMatches c (Some po) = Some False
     \<Longrightarrow> json_Marshal_filter e (filterRequest resources action po) = Inl er
     \<Longrightarrow> QueryPermissionsMultiResources e c resources action (Some po) w
           = Some (Return None (Some (Wrap er ''Failed to generate request body'')), w)"
  by (simp add: QueryPermissionsMultiResources_def filterRequest_def)

text \<open>
  Every run of the batch query that returns a nil error: either the bypass applied, or
  the last request of the call was answered with status 200 and the body decoded.
\<close>

lemma QueryPermissionsMultiResources_nil_error:
  assumes run: "QueryPermissionsMultiResources e c resources action permissionOptions w
                  = Some (Return rs None, w')"
  shows "(overrideMatches c permissionOptions = Some True \<and> w' = w
            \<and> rs = Some (replicate (length resources) True))
       \<or> (overrideMatches c permissionOptions = Some False
            \<and> (\<exists>body resp. length (sent w) < length (sent w')
                  \<and> reply (server e (length (sent w') - 1) (last (sent w'))) = Inr (http_StatusOK, body)
                  \<and> json_Unmarshal_filter e body = Inr resp
                  \<and> rs = Some (map (\<lambda>x. x \<in> set (Filter_Result resp)) resources)))"
proof (cases permissionOptions)
  case None
  with run show ?thesis by (simp add: QueryPermissionsMultiResources_nil_options)
next
  case (Some po)
  show ?thesis
  proof (cases "overrideMatches c (Some po)")
    case None
    then show ?thesis by (simp add: overrideMatches_Some)
  next
    case (Some b)
    note om = this
    show ?thesis
    proof (cases b)
      case True
      with om run \<open>permissionOptions = Some po\<close> show ?thesis
        by (simp add: QueryPermissionsMultiResources_bypass)
    next
      case False
      with om have nb: "overrideMatches c (Some po) = Some False" by simp
      show ?thesis
      proof (cases "json_Marshal_filter e (filterRequest resources action po)")
        case (Inl er)
        with nb run \<open>permissionOptions = Some po\<close> show ?thesis
          by (simp add: QueryPermissionsMultiResources_encode_fails)
      next
        case (Inr rb)
        let ?req = "transportRequest e (address c @ permissionFilterPath c) rb"
        from QueryPermissionsMultiResources_exchange [OF nb Inr, of w]
        obtain r w2 k where
          run2: "QueryPermissionsMultiResources e c resources action (Some po) w = Some (r, w2)"
          and sent2: "sent w2 = sent w @ replicate k ?req"
          and k: "0 < k"
          and r: "(\<not> exchangeSucceeds (server e (length (sent w) + (k - 1)) ?req)
              \<and> r = Return None (Some (Wrap timedOut ''Failed to send HTTP request to OPA'')))
            \<or> (\<exists>body. reply (server e (length (sent w) + (k - 1)) ?req) = Inr (http_StatusOK, body)
                 \<and> r = (case json_Unmarshal_filter e body of
                          Inl er \<Rightarrow> Return None (Some (Wrap er ''Failed to unmarshal response body''))
                        | Inr resp \<Rightarrow>
                            Return (Some (map (\<lambda>x. x \<in> set (Filter_Result resp)) resources)) None))"
          by blast
        from run run2 \<open>permissionOptions = Some po\<close>
        have eq: "r = Return rs None" "w2 = w'" by simp_all
        from k sent2 eq have last: "last (sent w') = ?req" "length (sent w) < length (sent w')"
          "length (sent w') - 1 = length (sent w) + (k - 1)"
          by auto
        from r eq obtain body where
          body: "reply (server e (length (sent w) + (k - 1)) ?req) = Inr (http_StatusOK, body)"
          and fin: "Return rs None = (case json_Unmarshal_filter e body of
                          Inl er \<Rightarrow> Return None (Some (Wrap er ''Failed to unmarshal response body''))
                        | Inr resp \<Rightarrow>
                            Return (Some (map (\<lambda>x. x \<in> set (Filter_Result resp)) resources)) None)"
          by auto
        from fin obtain resp where
          "json_Unmarshal_filter e body = Inr resp"
          "rs = Some (map (\<lambda>x. x \<in> set (Filter_Result resp)) resources)"
          by (cases "json_Unmarshal_filter e body") auto
        with body last nb \<open>permissionOptions = Some po\<close> show ?thesis
          by auto
      qed
    qed
  qed
qed

text \<open>
  C1. Whenever \<open>QueryPermissionsMultiResources\<close> returns a nil error, the slice is not nil
  and has exactly \<open>len(resources)\<close> elements, and equal resource strings get equal
  outcomes. For the answer that the call received from the server and decoded (the
  answer to the last request that this call put on the wire), element \<open>i\<close> is true if
  and only if \<open>resources[i]\<close> occurs in the decoded result. There is such an answer
  whenever the call went to the server, that is, unless the bypass shortcut applied.
\<close>

theorem batch_result_is_membership:
  assumes "QueryPermissionsMultiResources e c resources action permissionOptions w
             = Some (Return rs None, w')"
  shows "\<exists>results. rs = Some results
         \<and> length results = length resources
         \<and> (\<forall>i<length resources. \<forall>j<length resources.
               resources ! i = resources ! j \<longrightarrow> results ! i = results ! j)
         \<and> (\<forall>body resp.
               length (sent w) < length (sent w')
               \<and> reply (server e (length (sent w') - 1) (last (sent w'))) = Inr (http_StatusOK, body)
               \<and> json_Unmarshal_filter e body = Inr resp
               \<longrightarrow> (\<forall>i<length resources.
                      results ! i \<longleftrightarrow> resources ! i \<in> set (Filter_Result resp)))
         \<and> (overrideMatches c permissionOptions = Some False \<longrightarrow>
              (\<exists>body resp. length (sent w) < length (sent w')
                 \<and> reply (server e (length (sent w') - 1) (last (sent w'))) = Inr (http_StatusOK, body)
                 \<and> json_Unmarshal_filter e body = Inr resp))"
  using QueryPermissionsMultiResources_nil_error [OF assms]
proof (elim disjE conjE exE)
  assume "overrideMatches c permissionOptions = Some True"
    and "w' = w"
    and "rs = Some (replicate (length resources) True)"
  then show ?thesis by simp
next
  fix body resp
  assume nb: "overrideMatches c permissionOptions = Some False"
    and sent: "length (sent w) < length (sent w')"
    and body: "reply (server e (length (sent w') - 1) (last (sent w'))) = Inr (http_StatusOK, body)"
    and resp: "json_Unmarshal_filter e body = Inr resp"
    and rs: "rs = Some (map (\<lambda>x. x \<in> set (Filter_Result resp)) resources)"
  let ?results = "map (\<lambda>x. x \<in> set (Filter_Result resp)) resources"
  have dup: "\<forall>i<length resources. \<forall>j<length resources.
               resources ! i = resources ! j \<longrightarrow> ?results ! i = ?results ! j"
    by simp
  have mem: "\<forall>body' resp'.
               length (sent w) < length (sent w')
               \<and> reply (server e (length (sent w') - 1) (last (sent w'))) = Inr (http_StatusOK, body')
               \<and> json_Unmarshal_filter e body' = Inr resp'
               \<longrightarrow> (\<forall>i<length resources.
                      ?results ! i \<longleftrightarrow> resources ! i \<in> set (Filter_Result resp'))"
  proof (intro allI impI)
    fix body' resp' i
    assume h: "length (sent w) < length (sent w')
               \<and> reply (server e (length (sent w') - 1) (last (sent w'))) = Inr (http_StatusOK, body')
               \<and> json_Unmarshal_filter e body' = Inr resp'"
      and i: "i < length resources"
    from h body have "body' = body" by simp
    with h resp have "resp' = resp" by simp
    with i show "?results ! i \<longleftrightarrow> resources ! i \<in> set (Filter_Result resp')" by simp
  qed
  from sent body resp have ex: "\<exists>body resp. length (sent w) < length (sent w')
                 \<and> reply (server e (length (sent w') - 1) (last (sent w'))) = Inr (http_StatusOK, body)
                 \<and> json_Unmarshal_filter e body = Inr resp"
    by blast
  from rs dup mem ex show ?thesis
    by (intro exI [of _ ?results]) simp
qed

theorem batch_result_is_membership_witness:
  "\<exists>w' body resp.
       QueryPermissionsMultiResources (exampleEnv encodeOK (answers bodyAC))
           (exampleClient []) [''a'', ''b'', ''c''] ActionRead (Some (exampleOptions [])) world0
         = Some (Return (Some [True, False, True]) None, w')
     \<and> length [True, False, True] = length [''a'', ''b'', ''c'']
     \<and> overrideMatches (exampleClient []) (Some (exampleOptions [])) = Some False
     \<and> length (sent world0) < length (sent w')
     \<and> reply (server (exampleEnv encodeOK (answers bodyAC)) (length (sent w') - 1) (last (sent w')))
         = Inr (http_StatusOK, body)
     \<and> json_Unmarshal_filter (exampleEnv encodeOK (answers bodyAC)) body = Inr resp
     \<and> Filter_Result resp = [''a'', ''c'']"
proof -
  let ?e = "exampleEnv encodeOK (answers bodyAC)"
  from example_filter_run obtain w' where
    run: "QueryPermissionsMultiResources ?e
           (exampleClient []) [''a'', ''b'', ''c''] ActionRead (Some (exampleOptions [])) world0
         = Some (Return (Some [True, False, True]) None, w')"
    by blast
  from batch_result_is_membership [OF run] example_no_bypass
  obtain body resp where sent: "length (sent world0) < length (sent w')"
    and body: "reply (server ?e (length (sent w') - 1) (last (sent w'))) = Inr (http_StatusOK, body)"
    and resp: "json_Unmarshal_filter ?e body = Inr resp"
    by blast
  from body have "body = bodyAC"
    by (simp add: exampleEnv_def answers_def)
  with resp have "Filter_Result resp = [''a'', ''c'']"
    by (auto simp: example_decode_ac)
  with run sent body resp example_no_bypass show ?thesis
    by (intro exI [of _ w'] exI [of _ body] exI [of _ resp]) simp
qed

lemma decoded_query_cases:
  "r = (case x of
          Inl er \<Rightarrow> Return False (Some (Wrap er msg))
        | Inr resp \<Rightarrow> Return (Query_Result resp) None)
     \<Longrightarrow> r = Return True None \<or> r = Return False None \<or> (\<exists>er. r = Return False (Some er))"
proof (cases x)
  case (Inl er)
  assume "r = (case x of
          Inl er \<Rightarrow> Return False (Some (Wrap er msg))
        | Inr resp \<Rightarrow> Return (Query_Result resp) None)"
  with Inl show ?thesis by simp
next
  case (Inr resp)
  assume "r = (case x of
          Inl er \<Rightarrow> Return False (Some (Wrap er msg))
        | Inr resp \<Rightarrow> Return (Query_Result resp) None)"
  with Inr show ?thesis by (cases "Query_Result resp") simp_all
qed

lemma decoded_filter_cases:
  "r = (case x of
          Inl er \<Rightarrow> Return None (Some (Wrap er msg))
        | Inr resp \<Rightarrow> Return (Some (f resp)) None)
     \<Longrightarrow> (\<exists>results. r = Return (Some results) None) \<or> (\<exists>er. r = Return None (Some er))"
  by (cases x) simp_all

text \<open>Every way in which the single query returns.\<close>

lemma QueryPermissions_returns:
  "\<exists>w'. QueryPermissions e c resource action (Some po) w = Some (Return True None, w')
       \<or> QueryPermissions e c resource action (Some po) w = Some (Return False None, w')
       \<or> (\<exists>er. QueryPermissions e c resource action (Some po) w = Some (Return False (Some er), w'))"
proof (cases "overrideMatches c (Some po)")
  case None
  then show ?thesis by (simp add: overrideMatches_Some)
next
  case (Some b)
  show ?thesis
  proof (cases b)
    case True
    with Some show ?thesis by (simp add: QueryPermissions_bypass)
  next
    case False
    with Some have nb: "overrideMatches c (Some po) = Some False" by simp
    show ?thesis
    proof (cases "json_Marshal_query e (queryRequest resource action po)")
      case (Inl er)
      with nb show ?thesis by (simp add: QueryPermissions_encode_fails)
    next
      case (Inr rb)
      let ?req = "transportRequest e (address c @ permissionQueryPath c) rb"
      from QueryPermissions_exchange [OF nb Inr, of w]
      obtain r w2 k where
        run: "QueryPermissions e c resource action (Some po) w = Some (r, w2)"
        and r: "(\<not> exchangeSucceeds (server e (length (sent w) + (k - 1)) ?req)
              \<and> r = Return False (Some (Wrap timedOut ''Failed to send HTTP request to OPA'')))
            \<or> (\<exists>body. reply (server e (length (sent w) + (k - 1)) ?req) = Inr (http_StatusOK, body)
                 \<and> r = (case json_Unmarshal_query e body of
                          Inl er \<Rightarrow> Return False (Some (Wrap er ''Failed to unmarshal response body''))
                        | Inr resp \<Rightarrow> Return (Query_Result resp) None))"
        by blast
      from r have "r = Return True None \<or> r = Return False None \<or> (\<exists>er. r = Return False (Some er))"
        by (elim disjE conjE exE) (simp, erule decoded_query_cases)
      with run show ?thesis by auto
    qed
  qed
qed

text \<open>Every way in which the batch query returns.\<close>

lemma QueryPermissionsMultiResources_returns:
  "\<exists>w'. (\<exists>results. QueryPermissionsMultiResources e c resources action (Some po) w
                      = Some (Return (Some results) None, w'))
       \<or> (\<exists>er. QueryPermissionsMultiResources e c resources action (Some po) w
                  = Some (Return None (Some er), w'))"
proof (cases "overrideMatches c (Some po)")
  case None
  then show ?thesis by (simp add: overrideMatches_Some)
next
  case (Some b)
  show ?thesis
  proof (cases b)
    case True
    with Some show ?thesis by (simp add: QueryPermissionsMultiResources_bypass)
  next
    case False
    with Some have nb: "overrideMatches c (Some po) = Some False" by simp
    show ?thesis
    proof (cases "json_Marshal_filter e (filterRequest resources action po)")
      case (Inl er)
      with nb show ?thesis by (simp add: QueryPermissionsMultiResources_encode_fails)
    next
      case (Inr rb)
      let ?req = "transportRequest e (address c @ permissionFilterPath c) rb"
      from QueryPermissionsMultiResources_exchange [OF nb Inr, of w]
      obtain r w2 k where
        run: "QueryPermissionsMultiResources e c resources action (Some po) w = Some (r, w2)"
        and r: "(\<not> exchangeSucceeds (server e (length (sent w) + (k - 1)) ?req)
              \<and> r = Return None (Some (Wrap timedOut ''Failed to send HTTP request to OPA'')))
            \<or> (\<exists>body. reply (server e (length (sent w) + (k - 1)) ?req) = Inr (http_StatusOK, body)
                 \<and> r = (case json_Unmarshal_filter e body of
                          Inl er \<Rightarrow> Return None (Some (Wrap er ''Failed to unmarshal response body''))
                        | Inr resp \<Rightarrow>
                            Return (Some (map (\<lambda>x. x \<in> set (Filter_Result resp)) resources)) None))"
        by blast
      from r have "(\<exists>results. r = Return (Some results) None) \<or> (\<exists>er. r = Return None (Some er))"
        by (elim disjE conjE exE) (simp, erule decoded_filter_cases)
      with run show ?thesis by auto
    qed
  qed
qed

text \<open>
  C3. Whenever a query method returns a non-nil error, the result beside it is the
  default: \<open>false\<close> from \<open>QueryPermissions\<close>, the nil slice from
  \<open>QueryPermissionsMultiResources\<close>. The statement is about every returning run, so it
  covers the failure to encode the request, the exhausted retries and the failure to
  decode the response alike.
\<close>

theorem error_comes_with_default:
  "(QueryPermissions e c resource action permissionOptions w = Some (Return allowed (Some er), w')
      \<longrightarrow> allowed = False)
 \<and> (QueryPermissionsMultiResources e c resources action permissionOptions w
        = Some (Return results (Some er'), w'')
      \<longrightarrow> results = None)"
proof (cases permissionOptions)
  case None
  then show ?thesis
    by (simp add: QueryPermissions_nil_options QueryPermissionsMultiResources_nil_options)
next
  case (Some po)
  from QueryPermissions_returns [of e c resource action po w]
    QueryPermissionsMultiResources_returns [of e c resources action po w]
  show ?thesis unfolding Some by auto
qed

theorem error_comes_with_default_witness:
  "QueryPermissions (exampleEnv encodeFails unreachable) (exampleClient []) ''x'' ActionRead
      (Some (exampleOptions [])) world0
     = Some (Return False (Some (Wrap (New ''json: unsupported value'') ''Failed to generate request body'')),
             world0)
 \<and> QueryPermissionsMultiResources (exampleEnv encodeFails unreachable) (exampleClient [])
      [''a'', ''b''] ActionRead (Some (exampleOptions [])) world0
     = Some (Return None (Some (Wrap (New ''json: unsupported value'') ''Failed to generate request body'')),
             world0)"
proof -
  let ?e = "exampleEnv encodeFails unreachable"
  let ?er = "Wrap (New ''json: unsupported value'') ''Failed to generate request body''"
  have nb: "overrideMatches (exampleClient []) (Some (exampleOptions [])) = Some False"
    by (simp add: overrideMatches_def exampleClient_def)
  have q: "QueryPermissions ?e (exampleClient []) ''x'' ActionRead
             (Some (exampleOptions [])) world0 = Some (Return False (Some ?er), world0)"
    using nb by (simp add: QueryPermissions_def json_Marshal_query_def exampleEnv_def encodeFails_def)
  have m: "QueryPermissionsMultiResources ?e (exampleClient []) [''a'', ''b''] ActionRead
             (Some (exampleOptions [])) world0 = Some (Return None (Some ?er), world0)"
    using nb by (simp add: QueryPermissionsMultiResources_def json_Marshal_filter_def exampleEnv_def
        encodeFails_def)
  from q m
    error_comes_with_default [of ?e "exampleClient []" "''x''" ActionRead "Some (exampleOptions [])"
      world0 False ?er world0 "[''a'', ''b'']" None ?er world0]
  show ?thesis by simp
qed

text \<open>
  C4. Serialization failures are not retried. When encoding the request fails, each
  query method returns the default result with the wrapped error and the world as it was:
  no request is put on the wire, the clock has not moved and no warning of the retrier's
  probe is logged. When the transport succeeds (at once or after \<open>k\<close> failed attempts
  within the window) and decoding the response body fails, each method returns the
  default result with the wrapped error, and the successful request is the last one on
  the wire: \<open>k + 1\<close> requests were sent in all.
\<close>

theorem serialization_failures_not_retried:
  assumes "overrideMatches c (Some po) = Some False"
  shows "(json_Marshal_query e (queryRequest resource action po) = Inl er \<longrightarrow>
            QueryPermissions e c resource action (Some po) w
              = Some (Return False (Some (Wrap er ''Failed to generate request body'')), w))
       \<and> (json_Marshal_filter e (filterRequest resources action po) = Inl er \<longrightarrow>
            QueryPermissionsMultiResources e c resources action (Some po) w
              = Some (Return None (Some (Wrap er ''Failed to generate request body'')), w))
       \<and> (json_Marshal_query e (queryRequest resource action po) = Inr rb
            \<and> failsThenSucceeds e (transportRequest e (address c @ permissionQueryPath c) rb) w k body
            \<and> json_Unmarshal_query e body = Inl er \<longrightarrow>
            (\<exists>w'. QueryPermissions e c resource action (Some po) w
                     = Some (Return False (Some (Wrap er ''Failed to unmarshal response body'')), w')
                 \<and> sent w' = sent w @ replicate (Suc k)
                                (transportRequest e (address c @ permissionQueryPath c) rb)))
       \<and> (json_Marshal_filter e (filterRequest resources action po) = Inr rb
            \<and> failsThenSucceeds e (transportRequest e (address c @ permissionFilterPath c) rb) w k body
            \<and> json_Unmarshal_filter e body = Inl er \<longrightarrow>
            (\<exists>w'. QueryPermissionsMultiResources e c resources action (Some po) w
                     = Some (Return None (Some (Wrap er ''Failed to unmarshal response body'')), w')
                 \<and> sent w' = sent w @ replicate (Suc k)
                                (transportRequest e (address c @ permissionFilterPath c) rb)))"
proof (intro conjI impI)
  assume "json_Marshal_query e (queryRequest resource action po) = Inl er"
  with assms show "QueryPermissions e c resource action (Some po) w
              = Some (Return False (Some (Wrap er ''Failed to generate request body'')), w)"
    by (rule QueryPermissions_encode_fails)
next
  assume "json_Marshal_filter e (filterRequest resources action po) = Inl er"
  with assms show "QueryPermissionsMultiResources e c resources action (Some po) w
              = Some (Return None (Some (Wrap er ''Failed to generate request body'')), w)"
    by (rule QueryPermissionsMultiResources_encode_fails)
next
  assume h: "json_Marshal_query e (queryRequest resource action po) = Inr rb
            \<and> failsThenSucceeds e (transportRequest e (address c @ permissionQueryPath c) rb) w k body
            \<and> json_Unmarshal_query e body = Inl er"
  then have enc: "json_Marshal_query e (queryRequest resource action po) = Inr rb"
    and net: "failsThenSucceeds e (transportRequest e (address c @ permissionQueryPath c) rb) w k body"
    and dec: "json_Unmarshal_query e body = Inl er"
    by simp_all
  from QueryPermissions_succeeds [OF assms enc net] dec
  show "\<exists>w'. QueryPermissions e c resource action (Some po) w
                     = Some (Return False (Some (Wrap er ''Failed to unmarshal response body'')), w')
                 \<and> sent w' = sent w @ replicate (Suc k)
                                (transportRequest e (address c @ permissionQueryPath c) rb)"
    by simp
next
  assume h: "json_Marshal_filter e (filterRequest resources action po) = Inr rb
            \<and> failsThenSucceeds e (transportRequest e (address c @ permissionFilterPath c) rb) w k body
            \<and> json_Unmarshal_filter e body = Inl er"
  then have enc: "json_Marshal_filter e (filterRequest resources action po) = Inr rb"
    and net: "failsThenSucceeds e (transportRequest e (address c @ permissionFilterPath c) rb) w k body"
    and dec: "json_Unmarshal_filter e body = Inl er"
    by simp_all
  from QueryPermissionsMultiResources_succeeds [OF assms enc net] dec
  show "\<exists>w'. QueryPermissionsMultiResources e c resources action (Some po) w
                     = Some (Return None (Some (Wrap er ''Failed to unmarshal response body'')), w')
                 \<and> sent w' = sent w @ replicate (Suc k)
                                (transportRequest e (address c @ permissionFilterPath c) rb)"
    by simp
qed

theorem serialization_failures_not_retried_witness:
  "QueryPermissions (exampleEnv encodeFails unreachable) (exampleClient []) ''x'' ActionRead
     (Some (exampleOptions [])) world0
     = Some (Return False (Some (Wrap (New ''json: unsupported value'')
                                   ''Failed to generate request body'')), world0)
 \<and> QueryPermissionsMultiResources (exampleEnv encodeFails unreachable) (exampleClient [])
     [''a'', ''b''] ActionRead (Some (exampleOptions [])) world0
     = Some (Return None (Some (Wrap (New ''json: unsupported value'')
                                  ''Failed to generate request body'')), world0)
 \<and> (\<exists>w'. QueryPermissions (exampleEnv encodeOK (answersThird ''<html>'')) (exampleClient [])
            ''x'' ActionRead (Some (exampleOptions [])) world0
          = Some (Return False (Some (Wrap (New ''invalid character'')
                                        ''Failed to unmarshal response body'')), w')
        \<and> length (sent w') = 3)
 \<and> (\<exists>w'. QueryPermissionsMultiResources (exampleEnv encodeOK (answersThird ''<html>''))
            (exampleClient []) [''a'', ''b''] ActionRead (Some (exampleOptions [])) world0
          = Some (Return None (Some (Wrap (New ''invalid character'')
                                       ''Failed to unmarshal response body'')), w')
        \<and> length (sent w') = 3)"
proof -
  let ?bad = "exampleEnv encodeFails unreachable"
  let ?net = "exampleEnv encodeOK (answersThird ''<html>'')"
  note t1 = serialization_failures_not_retried [OF example_no_bypass,
      of ?bad "''x''" ActionRead "New ''json: unsupported value''" world0 "[''a'', ''b'']"]
  note t2 = serialization_failures_not_retried [OF example_no_bypass,
      of ?net "''x''" ActionRead "New ''invalid character''" world0 "[''a'', ''b'']"
         "renderJSON (json_of_PermissionQueryRequest (queryRequest ''x'' ActionRead (exampleOptions [])))"
         2 "''<html>''"]
  note t3 = serialization_failures_not_retried [OF example_no_bypass,
      of ?net "''x''" ActionRead "New ''invalid character''" world0 "[''a'', ''b'']"
         "renderJSON (json_of_PermissionFilterRequest
            (filterRequest [''a'', ''b''] ActionRead (exampleOptions [])))"
         2 "''<html>''"]
  have a: "QueryPermissions ?bad (exampleClient []) ''x'' ActionRead (Some (exampleOptions [])) world0
     = Some (Return False (Some (Wrap (New ''json: unsupported value'')
                                   ''Failed to generate request body'')), world0)"
    using t1 by (simp add: example_encodeFails_query)
  have b: "QueryPermissionsMultiResources ?bad (exampleClient [])
     [''a'', ''b''] ActionRead (Some (exampleOptions [])) world0
     = Some (Return None (Some (Wrap (New ''json: unsupported value'')
                                  ''Failed to generate request body'')), world0)"
    using t1 by (simp add: example_encodeFails_filter)
  have c: "\<exists>w'. QueryPermissions ?net (exampleClient [])
            ''x'' ActionRead (Some (exampleOptions [])) world0
          = Some (Return False (Some (Wrap (New ''invalid character'')
                                        ''Failed to unmarshal response body'')), w')
        \<and> length (sent w') = 3"
  proof -
    from t2 example_encodeOK_query example_answersThird example_garbage_query
    obtain w' where "QueryPermissions ?net (exampleClient [])
            ''x'' ActionRead (Some (exampleOptions [])) world0
          = Some (Return False (Some (Wrap (New ''invalid character'')
                                        ''Failed to unmarshal response body'')), w')"
      and "sent w' = sent world0 @ replicate (Suc 2)
             (transportRequest ?net (address (exampleClient []) @ permissionQueryPath (exampleClient []))
                (renderJSON (json_of_PermissionQueryRequest
                   (queryRequest ''x'' ActionRead (exampleOptions [])))))"
      by blast
    then show ?thesis by (intro exI [of _ w']) (simp add: world0_def)
  qed
  have d: "\<exists>w'. QueryPermissionsMultiResources ?net
            (exampleClient []) [''a'', ''b''] ActionRead (Some (exampleOptions [])) world0
          = Some (Return None (Some (Wrap (New ''invalid character'')
                                       ''Failed to unmarshal response body'')), w')
        \<and> length (sent w') = 3"
  proof -
    from t3 example_encodeOK_filter example_answersThird example_garbage_filter
    obtain w' where "QueryPermissionsMultiResources ?net (exampleClient [])
            [''a'', ''b''] ActionRead (Some (exampleOptions [])) world0
          = Some (Return None (Some (Wrap (New ''invalid character'')
                                       ''Failed to unmarshal response body'')), w')"
      and "sent w' = sent world0 @ replicate (Suc 2)
             (transportRequest ?net (address (exampleClient []) @ permissionFilterPath (exampleClient []))
                (renderJSON (json_of_PermissionFilterRequest
                   (filterRequest [''a'', ''b''] ActionRead (exampleOptions [])))))"
      by blast
    then show ?thesis by (intro exI [of _ w']) (simp add: world0_def)
  qed
  from a b c d show ?thesis by blast
qed

text \<open>
  C5. On the network path of either query method the whole exchange is retried by the
  bounded retrier with a window of 6 seconds and a pause of 1 second:
  \<^item> the call returns, and what it has put on the wire is between one and seven copies
    of the same request, one for each invocation of the probe;
  \<^item> if the transport does not succeed within the window (\<open>n\<close> exchanges fail and
    use up the 6 seconds; seven failures always do), the call returns the retrier's
    error, wrapped, with the default result;
  \<^item> if \<open>k\<close> exchanges fail and the next one, started within the window, succeeds with
    \<open>body\<close>, the call returns what decoding \<open>body\<close> gives, whatever \<open>k\<close> is; \<open>k = 0\<close> is
    the transport that succeeds immediately.
\<close>

theorem retried_within_window:
  fixes e c resource resources action po qb fb
  defines "qreq \<equiv> transportRequest e (address c @ permissionQueryPath c) qb"
    and "freq \<equiv> transportRequest e (address c @ permissionFilterPath c) fb"
  assumes nb: "overrideMatches c (Some po) = Some False"
    and encq: "json_Marshal_query e (queryRequest resource action po) = Inr qb"
    and encf: "json_Marshal_filter e (filterRequest resources action po) = Inr fb"
  shows "(\<exists>r w' n. QueryPermissions e c resource action (Some po) w = Some (r, w')
            \<and> 0 < n \<and> n \<le> 7 \<and> sent w' = sent w @ replicate n qreq)
       \<and> (\<exists>r w' n. QueryPermissionsMultiResources e c resources action (Some po) w = Some (r, w')
            \<and> 0 < n \<and> n \<le> 7 \<and> sent w' = sent w @ replicate n freq)
       \<and> (failsThroughout e qreq w n \<longrightarrow>
            (\<exists>w'. QueryPermissions e c resource action (Some po) w
                     = Some (Return False (Some (Wrap timedOut ''Failed to send HTTP request to OPA'')), w')))
       \<and> (failsThroughout e freq w n \<longrightarrow>
            (\<exists>w'. QueryPermissionsMultiResources e c resources action (Some po) w
                     = Some (Return None (Some (Wrap timedOut ''Failed to send HTTP request to OPA'')), w')))
       \<and> (failsThenSucceeds e qreq w k body \<longrightarrow>
            (\<exists>w'. QueryPermissions e c resource action (Some po) w
                     = Some (case json_Unmarshal_query e body of
                               Inl er \<Rightarrow> Return False (Some (Wrap er ''Failed to unmarshal response body''))
                             | Inr resp \<Rightarrow> Return (Query_Result resp) None, w')
                 \<and> sent w' = sent w @ replicate (Suc k) qreq))
       \<and> (failsThenSucceeds e freq w k body \<longrightarrow>
            (\<exists>w'. QueryPermissionsMultiResources e c resources action (Some po) w
                     = Some (case json_Unmarshal_filter e body of
                               Inl er \<Rightarrow> Return None (Some (Wrap er ''Failed to unmarshal response body''))
                             | Inr resp \<Rightarrow>
                                 Return (Some (map (\<lambda>x. x \<in> set (Filter_Result resp)) resources)) None, w')
                 \<and> sent w' = sent w @ replicate (Suc k) freq))"
proof (intro conjI impI)
  from QueryPermissions_exchange [OF nb encq, of w]
  show "\<exists>r w' n. QueryPermissions e c resource action (Some po) w = Some (r, w')
            \<and> 0 < n \<and> n \<le> 7 \<and> sent w' = sent w @ replicate n qreq"
    unfolding qreq_def by blast
next
  from QueryPermissionsMultiResources_exchange [OF nb encf, of w]
  show "\<exists>r w' n. QueryPermissionsMultiResources e c resources action (Some po) w = Some (r, w')
            \<and> 0 < n \<and> n \<le> 7 \<and> sent w' = sent w @ replicate n freq"
    unfolding freq_def by blast
next
  assume "failsThroughout e qreq w n"
  then show "\<exists>w'. QueryPermissions e c resource action (Some po) w
                     = Some (Return False (Some (Wrap timedOut ''Failed to send HTTP request to OPA'')), w')"
    unfolding qreq_def by (rule QueryPermissions_times_out [OF nb encq])
next
  assume "failsThroughout e freq w n"
  then show "\<exists>w'. QueryPermissionsMultiResources e c resources action (Some po) w
                     = Some (Return None (Some (Wrap timedOut ''Failed to send HTTP request to OPA'')), w')"
    unfolding freq_def by (rule QueryPermissionsMultiResources_times_out [OF nb encf])
next
  assume "failsThenSucceeds e qreq w k body"
  then show "\<exists>w'. QueryPermissions e c resource action (Some po) w
                     = Some (case json_Unmarshal_query e body of
                               Inl er \<Rightarrow> Return False (Some (Wrap er ''Failed to unmarshal response body''))
                             | Inr resp \<Rightarrow> Return (Query_Result resp) None, w')
                 \<and> sent w' = sent w @ replicate (Suc k) qreq"
    unfolding qreq_def by (rule QueryPermissions_succeeds [OF nb encq])
next
  assume "failsThenSucceeds e freq w k body"
  then show "\<exists>w'. QueryPermissionsMultiResources e c resources action (Some po) w
                     = Some (case json_Unmarshal_filter e body of
                               Inl er \<Rightarrow> Return None (Some (Wrap er ''Failed to unmarshal response body''))
                             | Inr resp \<Rightarrow>
                                 Return (Some (map (\<lambda>x. x \<in> set (Filter_Result resp)) resources)) None, w')
                 \<and> sent w' = sent w @ replicate (Suc k) freq"
    unfolding freq_def by (rule QueryPermissionsMultiResources_succeeds [OF nb encf])
qed

theorem retried_within_window_witness:
  "(\<exists>w'. QueryPermissions (exampleEnv encodeOK unreachable) (exampleClient []) ''x'' ActionRead
            (Some (exampleOptions [])) world0
          = Some (Return False (Some (Wrap timedOut ''Failed to send HTTP request to OPA'')), w'))
 \<and> (\<exists>w'. QueryPermissionsMultiResources (exampleEnv encodeOK unreachable) (exampleClient [])
            [''a'', ''b'', ''c''] ActionRead (Some (exampleOptions [])) world0
          = Some (Return None (Some (Wrap timedOut ''Failed to send HTTP request to OPA'')), w'))
 \<and> (\<exists>w'. QueryPermissions (exampleEnv encodeOK slow) (exampleClient []) ''x'' ActionRead
            (Some (exampleOptions [])) world0
          = Some (Return False (Some (Wrap timedOut ''Failed to send HTTP request to OPA'')), w'))
 \<and> (\<exists>w'. QueryPermissions (exampleEnv encodeOK (answersThird bodyTrue)) (exampleClient []) ''x''
            ActionRead (Some (exampleOptions [])) world0
          = Some (Return True None, w') \<and> length (sent w') = 3)
 \<and> (\<exists>w'. QueryPermissions (exampleEnv encodeOK (answers bodyTrue)) (exampleClient []) ''x''
            ActionRead (Some (exampleOptions [])) world0
          = Some (Return True None, w') \<and> length (sent w') = 1)
 \<and> (\<exists>w'. QueryPermissionsMultiResources (exampleEnv encodeOK (answersThird bodyAC)) (exampleClient [])
            [''a'', ''b'', ''c''] ActionRead (Some (exampleOptions [])) world0
          = Some (Return (Some [True, False, True]) None, w') \<and> length (sent w') = 3)"
proof -
  let ?qb = "renderJSON (json_of_PermissionQueryRequest (queryRequest ''x'' ActionRead (exampleOptions [])))"
  let ?fb = "renderJSON (json_of_PermissionFilterRequest
               (filterRequest [''a'', ''b'', ''c''] ActionRead (exampleOptions [])))"
  note down = retried_within_window [OF example_no_bypass
      example_encodeOK_query [of unreachable "''x''" ActionRead "exampleOptions []"]
      example_encodeOK_filter [of unreachable "[''a'', ''b'', ''c'']" ActionRead "exampleOptions []"],
      where w = world0 and n = 7]
  note late = retried_within_window [OF example_no_bypass
      example_encodeOK_query [of slow "''x''" ActionRead "exampleOptions []"]
      example_encodeOK_filter [of slow "[''a'', ''b'', ''c'']" ActionRead "exampleOptions []"],
      where w = world0 and n = 1]
  note flaky = retried_within_window [OF example_no_bypass
      example_encodeOK_query [of "answersThird bodyTrue" "''x''" ActionRead "exampleOptions []"]
      example_encodeOK_filter [of "answersThird bodyTrue" "[''a'', ''b'', ''c'']" ActionRead "exampleOptions []"],
      where w = world0 and k = 2 and body = bodyTrue]
  note up = retried_within_window [OF example_no_bypass
      example_encodeOK_query [of "answers bodyTrue" "''x''" ActionRead "exampleOptions []"]
      example_encodeOK_filter [of "answers bodyTrue" "[''a'', ''b'', ''c'']" ActionRead "exampleOptions []"],
      where w = world0 and k = 0 and body = bodyTrue]
  note flakyf = retried_within_window [OF example_no_bypass
      example_encodeOK_query [of "answersThird bodyAC" "''x''" ActionRead "exampleOptions []"]
      example_encodeOK_filter [of "answersThird bodyAC" "[''a'', ''b'', ''c'']" ActionRead "exampleOptions []"],
      where w = world0 and k = 2 and body = bodyAC]
  have a: "\<exists>w'. QueryPermissions (exampleEnv encodeOK unreachable) (exampleClient []) ''x'' ActionRead
            (Some (exampleOptions [])) world0
          = Some (Return False (Some (Wrap timedOut ''Failed to send HTTP request to OPA'')), w')"
    using down example_unreachable_throughout by blast
  have b: "\<exists>w'. QueryPermissionsMultiResources (exampleEnv encodeOK unreachable) (exampleClient [])
            [''a'', ''b'', ''c''] ActionRead (Some (exampleOptions [])) world0
          = Some (Return None (Some (Wrap timedOut ''Failed to send HTTP request to OPA'')), w')"
    using down example_unreachable_throughout by blast
  have c: "\<exists>w'. QueryPermissions (exampleEnv encodeOK (answersThird bodyTrue)) (exampleClient []) ''x''
            ActionRead (Some (exampleOptions [])) world0
          = Some (Return True None, w') \<and> length (sent w') = 3"
  proof -
    from flaky example_answersThird obtain w' where
      "QueryPermissions (exampleEnv encodeOK (answersThird bodyTrue)) (exampleClient []) ''x''
            ActionRead (Some (exampleOptions [])) world0
         = Some (case json_Unmarshal_query (exampleEnv encodeOK (answersThird bodyTrue)) bodyTrue of
                   Inl er \<Rightarrow> Return False (Some (Wrap er ''Failed to unmarshal response body''))
                 | Inr resp \<Rightarrow> Return (Query_Result resp) None, w')"
      and "sent w' = sent world0 @ replicate (Suc 2)
             (transportRequest (exampleEnv encodeOK (answersThird bodyTrue))
                (address (exampleClient []) @ permissionQueryPath (exampleClient [])) ?qb)"
      by blast
    then show ?thesis
      by (intro exI [of _ w']) (simp add: example_decode_true world0_def)
  qed
  have d: "\<exists>w'. QueryPermissions (exampleEnv encodeOK (answers bodyTrue)) (exampleClient []) ''x''
            ActionRead (Some (exampleOptions [])) world0
          = Some (Return True None, w') \<and> length (sent w') = 1"
  proof -
    from up example_answers obtain w' where
      "QueryPermissions (exampleEnv encodeOK (answers bodyTrue)) (exampleClient []) ''x''
            ActionRead (Some (exampleOptions [])) world0
         = Some (case json_Unmarshal_query (exampleEnv encodeOK (answers bodyTrue)) bodyTrue of
                   Inl er \<Rightarrow> Return False (Some (Wrap er ''Failed to unmarshal response body''))
                 | Inr resp \<Rightarrow> Return (Query_Result resp) None, w')"
      and "sent w' = sent world0 @ replicate (Suc 0)
             (transportRequest (exampleEnv encodeOK (answers bodyTrue))
                (address (exampleClient []) @ permissionQueryPath (exampleClient [])) ?qb)"
      by blast
    then show ?thesis
      by (intro exI [of _ w']) (simp add: example_decode_true world0_def)
  qed
  have f: "\<exists>w'. QueryPermissionsMultiResources (exampleEnv encodeOK (answersThird bodyAC)) (exampleClient [])
            [''a'', ''b'', ''c''] ActionRead (Some (exampleOptions [])) world0
          = Some (Return (Some [True, False, True]) None, w') \<and> length (sent w') = 3"
  proof -
    from flakyf example_answersThird obtain w' where
      "QueryPermissionsMultiResources (exampleEnv encodeOK (answersThird bodyAC)) (exampleClient [])
            [''a'', ''b'', ''c''] ActionRead (Some (exampleOptions [])) world0
         = Some (case json_Unmarshal_filter (exampleEnv encodeOK (answersThird bodyAC)) bodyAC of
                   Inl er \<Rightarrow> Return None (Some (Wrap er ''Failed to unmarshal response body''))
                 | Inr resp \<Rightarrow>
                     Return (Some (map (\<lambda>x. x \<in> set (Filter_Result resp)) [''a'', ''b'', ''c''])) None, w')"
      and "sent w' = sent world0 @ replicate (Suc 2)
             (transportRequest (exampleEnv encodeOK (answersThird bodyAC))
                (address (exampleClient []) @ permissionFilterPath (exampleClient [])) ?fb)"
      by blast
    then show ?thesis
      by (intro exI [of _ w']) (simp add: example_decode_ac world0_def)
  qed
  have g: "\<exists>w'. QueryPermissions (exampleEnv encodeOK slow) (exampleClient []) ''x'' ActionRead
            (Some (exampleOptions [])) world0
          = Some (Return False (Some (Wrap timedOut ''Failed to send HTTP request to OPA'')), w')"
    using late example_slow_throughout by blast
  from a b c d f g show ?thesis by blast
qed

text \<open>
  C6. When the transport exchange succeeds (at once or after failed attempts within the
  window) and the response body decodes to a \<open>PermissionQueryResponse\<close>,
  \<open>QueryPermissions\<close> returns the decoded boolean with a nil error. A decoded
  \<open>false\<close> is returned as \<open>(false, nil)\<close>.
\<close>

theorem decoded_boolean_is_returned:
  assumes "overrideMatches c (Some po) = Some False"
    and "json_Marshal_query e (queryRequest resource action po) = Inr rb"
    and "failsThenSucceeds e (transportRequest e (address c @ permissionQueryPath c) rb) w k body"
    and "json_Unmarshal_query e body = Inr resp"
  shows "\<exists>w'. QueryPermissions e c resource action (Some po) w
                 = Some (Return (Query_Result resp) None, w')"
  using QueryPermissions_succeeds [OF assms(1-3)] assms(4) by auto

theorem decoded_boolean_is_returned_witness:
  "\<exists>w'. QueryPermissions (exampleEnv encodeOK (answers bodyFalse)) (exampleClient []) ''x''
            ActionRead (Some (exampleOptions [])) world0
        = Some (Return False None, w')"
  using decoded_boolean_is_returned [OF example_no_bypass
      example_encodeOK_query [of "answers bodyFalse" "''x''" ActionRead "exampleOptions []"]
      example_answers [of encodeOK bodyFalse]
      example_decode_false [of encodeOK "answers bodyFalse"]]
  by simp

text \<open>
  C7. With an empty configured override value the bypass condition is false for every
  options value, also for options whose own override value is empty. Both methods then
  take the network path: a failure to encode is returned as such, and otherwise at least
  one request is put on the wire and the method returns either the retrier's error or
  what decoding the response body gives. The empty configuration is not an error of its
  own.
\<close>

theorem empty_override_never_bypasses:
  assumes "overrideHeaderValue c = []"
  shows "overrideMatches c (Some po) = Some False
       \<and> (case json_Marshal_query e (queryRequest resource action po) of
            Inl er \<Rightarrow>
              QueryPermissions e c resource action (Some po) w
                = Some (Return False (Some (Wrap er ''Failed to generate request body'')), w)
          | Inr rb \<Rightarrow>
              (\<exists>r w' n. QueryPermissions e c resource action (Some po) w = Some (r, w')
                 \<and> 0 < n
                 \<and> sent w' = sent w @ replicate n (transportRequest e (address c @ permissionQueryPath c) rb)
                 \<and> (r = Return False (Some (Wrap timedOut ''Failed to send HTTP request to OPA''))
                    \<or> (\<exists>body. reply (server e (length (sent w') - 1) (last (sent w')))
                                 = Inr (http_StatusOK, body)
                          \<and> r = (case json_Unmarshal_query e body of
                                   Inl er \<Rightarrow> Return False (Some (Wrap er ''Failed to unmarshal response body''))
                                 | Inr resp \<Rightarrow> Return (Query_Result resp) None)))))
       \<and> (case json_Marshal_filter e (filterRequest resources action po) of
            Inl er \<Rightarrow>
              QueryPermissionsMultiResources e c resources action (Some po) w
                = Some (Return None (Some (Wrap er ''Failed to generate request body'')), w)
          | Inr rb \<Rightarrow>
              (\<exists>r w' n. QueryPermissionsMultiResources e c resources action (Some po) w = Some (r, w')
                 \<and> 0 < n
                 \<and> sent w' = sent w @ replicate n (transportRequest e (address c @ permissionFilterPath c) rb)
                 \<and> (r = Return None (Some (Wrap timedOut ''Failed to send HTTP request to OPA''))
                    \<or> (\<exists>body. reply (server e (length (sent w') - 1) (last (sent w')))
                                 = Inr (http_StatusOK, body)
                          \<and> r = (case json_Unmarshal_filter e body of
                                   Inl er \<Rightarrow> Return None (Some (Wrap er ''Failed to unmarshal response body''))
                                 | Inr resp \<Rightarrow>
                                     Return (Some (map (\<lambda>x. x \<in> set (Filter_Result resp)) resources))
                                       None)))))"
proof -
  from assms have nb: "overrideMatches c (Some po) = Some False"
    by (simp add: overrideMatches_def)
  have q: "case json_Marshal_query e (queryRequest resource action po) of
            Inl er \<Rightarrow>
              QueryPermissions e c resource action (Some po) w
                = Some (Return False (Some (Wrap er ''Failed to generate request body'')), w)
          | Inr rb \<Rightarrow>
              (\<exists>r w' n. QueryPermissions e c resource action (Some po) w = Some (r, w')
                 \<and> 0 < n
                 \<and> sent w' = sent w @ replicate n (transportRequest e (address c @ permissionQueryPath c) rb)
                 \<and> (r = Return False (Some (Wrap timedOut ''Failed to send HTTP request to OPA''))
                    \<or> (\<exists>body. reply (server e (length (sent w') - 1) (last (sent w')))
                                 = Inr (http_StatusOK, body)
                          \<and> r = (case json_Unmarshal_query e body of
                                   Inl er \<Rightarrow> Return False (Some (Wrap er ''Failed to unmarshal response body''))
                                 | Inr resp \<Rightarrow> Return (Query_Result resp) None))))"
  proof (cases "json_Marshal_query e (queryRequest resource action po)")
    case (Inl er)
    with nb show ?thesis by (simp add: QueryPermissions_encode_fails)
  next
    case (Inr rb)
    let ?req = "transportRequest e (address c @ permissionQueryPath c) rb"
    from QueryPermissions_exchange [OF nb Inr, of w]
    obtain r w' n where
      run: "QueryPermissions e c resource action (Some po) w = Some (r, w')"
      and sent': "sent w' = sent w @ replicate n ?req"
      and n: "0 < n"
      and r: "(\<not> exchangeSucceeds (server e (length (sent w) + (n - 1)) ?req)
              \<and> r = Return False (Some (Wrap timedOut ''Failed to send HTTP request to OPA'')))
            \<or> (\<exists>body. reply (server e (length (sent w) + (n - 1)) ?req) = Inr (http_StatusOK, body)
                 \<and> r = (case json_Unmarshal_query e body of
                          Inl er \<Rightarrow> Return False (Some (Wrap er ''Failed to unmarshal response body''))
                        | Inr resp \<Rightarrow> Return (Query_Result resp) None))"
      by blast
    from n sent' have last: "last (sent w') = ?req" "length (sent w') - 1 = length (sent w) + (n - 1)"
      by auto
    from run sent' n r show ?thesis
      unfolding Inr sum.case last [symmetric]
      by (intro exI [of _ r] exI [of _ w'] exI [of _ n]) (auto simp: last)
  qed
  have m: "case json_Marshal_filter e (filterRequest resources action po) of
            Inl er \<Rightarrow>
              QueryPermissionsMultiResources e c resources action (Some po) w
                = Some (Return None (Some (Wrap er ''Failed to generate request body'')), w)
          | Inr rb \<Rightarrow>
              (\<exists>r w' n. QueryPermissionsMultiResources e c resources action (Some po) w = Some (r, w')
                 \<and> 0 < n
                 \<and> sent w' = sent w @ replicate n (transportRequest e (address c @ permissionFilterPath c) rb)
                 \<and> (r = Return None (Some (Wrap timedOut ''Failed to send HTTP request to OPA''))
                    \<or> (\<exists>body. reply (server e (length (sent w') - 1) (last (sent w')))
                                 = Inr (http_StatusOK, body)
                          \<and> r = (case json_Unmarshal_filter e body of
                                   Inl er \<Rightarrow> Return None (Some (Wrap er ''Failed to unmarshal response body''))
                                 | Inr resp \<Rightarrow>
                                     Return (Some (map (\<lambda>x. x \<in> set (Filter_Result resp)) resources))
                                       None))))"
  proof (cases "json_Marshal_filter e (filterRequest resources action po)")
    case (Inl er)
    with nb show ?thesis by (simp add: QueryPermissionsMultiResources_encode_fails)
  next
    case (Inr rb)
    let ?req = "transportRequest e (address c @ permissionFilterPath c) rb"
    from QueryPermissionsMultiResources_exchange [OF nb Inr, of w]
    obtain r w' n where
      run: "QueryPermissionsMultiResources e c resources action (Some po) w = Some (r, w')"
      and sent': "sent w' = sent w @ replicate n ?req"
      and n: "0 < n"
      and r: "(\<not> exchangeSucceeds (server e (length (sent w) + (n - 1)) ?req)
              \<and> r = Return None (Some (Wrap timedOut ''Failed to send HTTP request to OPA'')))
            \<or> (\<exists>body. reply (server e (length (sent w) + (n - 1)) ?req) = Inr (http_StatusOK, body)
                 \<and> r = (case json_Unmarshal_filter e body of
                          Inl er \<Rightarrow> Return None (Some (Wrap er ''Failed to unmarshal response body''))
                        | Inr resp \<Rightarrow>
                            Return (Some (map (\<lambda>x. x \<in> set (Filter_Result resp)) resources)) None))"
      by blast
    from n sent' have last: "last (sent w') = ?req" "length (sent w') - 1 = length (sent w) + (n - 1)"
      by auto
    from run sent' n r show ?thesis
      unfolding Inr sum.case last [symmetric]
      by (intro exI [of _ r] exI [of _ w'] exI [of _ n]) (auto simp: last)
  qed
  from nb q m show ?thesis by blast
qed

theorem empty_override_never_bypasses_witness:
  "overrideHeaderValue (exampleClient []) = []
 \<and> OverrideHeaderValue (exampleOptions []) = overrideHeaderValue (exampleClient [])
 \<and> overrideMatches (exampleClient []) (Some (exampleOptions [])) = Some False
 \<and> (\<exists>r w' n. QueryPermissions (exampleEnv encodeOK (answers bodyFalse)) (exampleClient []) ''x''
                  ActionRead (Some (exampleOptions [])) world0 = Some (r, w')
               \<and> 0 < n \<and> length (sent w') = n)
 \<and> (\<exists>w'. QueryPermissions (exampleEnv encodeOK (answers bodyFalse)) (exampleClient []) ''x''
            ActionRead (Some (exampleOptions [])) world0 = Some (Return False None, w'))
 \<and> (\<exists>r w' n. QueryPermissionsMultiResources (exampleEnv encodeOK (answers bodyAC)) (exampleClient [])
                  [''a'', ''b'', ''c''] ActionRead (Some (exampleOptions [])) world0 = Some (r, w')
               \<and> 0 < n \<and> length (sent w') = n)"
proof -
  have h: "overrideHeaderValue (exampleClient []) = []"
    by (simp add: exampleClient_def)
  have eq: "OverrideHeaderValue (exampleOptions []) = overrideHeaderValue (exampleClient [])"
    by (simp add: exampleClient_def exampleOptions_def)
  note q = empty_override_never_bypasses [OF h, of "exampleOptions []"
      "exampleEnv encodeOK (answers bodyFalse)" "''x''" ActionRead world0 "[''a'', ''b'', ''c'']"]
  note m = empty_override_never_bypasses [OF h, of "exampleOptions []"
      "exampleEnv encodeOK (answers bodyAC)" "''x''" ActionRead world0 "[''a'', ''b'', ''c'']"]
  from q have a: "overrideMatches (exampleClient []) (Some (exampleOptions [])) = Some False"
    by blast
  from q have "\<exists>r w' n. QueryPermissions (exampleEnv encodeOK (answers bodyFalse)) (exampleClient []) ''x''
                  ActionRead (Some (exampleOptions [])) world0 = Some (r, w')
               \<and> 0 < n
               \<and> sent w' = sent world0 @ replicate n
                     (transportRequest (exampleEnv encodeOK (answers bodyFalse))
                        (address (exampleClient []) @ permissionQueryPath (exampleClient []))
                        (renderJSON (json_of_PermissionQueryRequest
                           (queryRequest ''x'' ActionRead (exampleOptions [])))))"
    unfolding example_encodeOK_query sum.case by blast
  then have b: "\<exists>r w' n. QueryPermissions (exampleEnv encodeOK (answers bodyFalse)) (exampleClient []) ''x''
                  ActionRead (Some (exampleOptions [])) world0 = Some (r, w')
               \<and> 0 < n \<and> length (sent w') = n"
    by (elim exE conjE) (simp add: world0_def)
  from m have "\<exists>r w' n. QueryPermissionsMultiResources (exampleEnv encodeOK (answers bodyAC))
                  (exampleClient []) [''a'', ''b'', ''c''] ActionRead (Some (exampleOptions [])) world0
                   = Some (r, w')
               \<and> 0 < n
               \<and> sent w' = sent world0 @ replicate n
                     (transportRequest (exampleEnv encodeOK (answers bodyAC))
                        (address (exampleClient []) @ permissionFilterPath (exampleClient []))
                        (renderJSON (json_of_PermissionFilterRequest
                           (filterRequest [''a'', ''b'', ''c''] ActionRead (exampleOptions [])))))"
    unfolding example_encodeOK_filter sum.case by blast
  then have c: "\<exists>r w' n. QueryPermissionsMultiResources (exampleEnv encodeOK (answers bodyAC))
                  (exampleClient []) [''a'', ''b'', ''c''] ActionRead (Some (exampleOptions [])) world0
                   = Some (r, w')
               \<and> 0 < n \<and> length (sent w') = n"
    by (elim exE conjE) (simp add: world0_def)
  have d: "\<exists>w'. QueryPermissions (exampleEnv encodeOK (answers bodyFalse)) (exampleClient []) ''x''
            ActionRead (Some (exampleOptions [])) world0 = Some (Return False None, w')"
    using QueryPermissions_succeeds [OF example_no_bypass
        example_encodeOK_query [of "answers bodyFalse" "''x''" ActionRead "exampleOptions []"]
        example_answers [of encodeOK bodyFalse]]
    by (auto simp: example_decode_false)
  from h eq a b c d show ?thesis by blast
qed

text \<open>
  C10. The successful batch result depends only on which of the requested resources are
  members of the decoded result. Two runs of the batch query for the same resources whose
  transports succeed, and whose decoded results contain the same requested resources,
  return the same slice; the order of the decoded result, repetitions in it and entries
  that were not requested make no difference.
\<close>

theorem batch_result_depends_on_membership_only:
  assumes "overrideMatches c (Some po) = Some False"
    and "json_Marshal_filter e1 (filterRequest resources action po) = Inr rb1"
    and "json_Marshal_filter e2 (filterRequest resources action po) = Inr rb2"
    and "failsThenSucceeds e1 (transportRequest e1 (address c @ permissionFilterPath c) rb1) w1 k1 body1"
    and "failsThenSucceeds e2 (transportRequest e2 (address c @ permissionFilterPath c) rb2) w2 k2 body2"
    and "json_Unmarshal_filter e1 body1 = Inr resp1"
    and "json_Unmarshal_filter e2 body2 = Inr resp2"
    and "set (Filter_Result resp1) \<inter> set resources = set (Filter_Result resp2) \<inter> set resources"
  shows "\<exists>results w1' w2'.
           QueryPermissionsMultiResources e1 c resources action (Some po) w1
             = Some (Return (Some results) None, w1')
         \<and> QueryPermissionsMultiResources e2 c resources action (Some po) w2
             = Some (Return (Some results) None, w2')
         \<and> results = map (\<lambda>x. x \<in> set (Filter_Result resp1)) resources"
proof -
  from QueryPermissionsMultiResources_succeeds [OF assms(1) assms(2) assms(4)] assms(6)
  obtain w1' where r1: "QueryPermissionsMultiResources e1 c resources action (Some po) w1
      = Some (Return (Some (map (\<lambda>x. x \<in> set (Filter_Result resp1)) resources)) None, w1')"
    by auto
  from QueryPermissionsMultiResources_succeeds [OF assms(1) assms(3) assms(5)] assms(7)
  obtain w2' where r2: "QueryPermissionsMultiResources e2 c resources action (Some po) w2
      = Some (Return (Some (map (\<lambda>x. x \<in> set (Filter_Result resp2)) resources)) None, w2')"
    by auto
  from assms(8) have "map (\<lambda>x. x \<in> set (Filter_Result resp1)) resources
                    = map (\<lambda>x. x \<in> set (Filter_Result resp2)) resources"
    by auto
  with r1 r2 show ?thesis by auto
qed

theorem batch_result_depends_on_membership_only_witness:
  "set [''a'', ''c''] \<inter> set [''a'', ''b'', ''c''] = set [''c'', ''z'', ''a'', ''c''] \<inter> set [''a'', ''b'', ''c'']
 \<and> (\<exists>w1' w2'.
       QueryPermissionsMultiResources (exampleEnv encodeOK (answers bodyAC)) (exampleClient [])
         [''a'', ''b'', ''c''] ActionRead (Some (exampleOptions [])) world0
         = Some (Return (Some [True, False, True]) None, w1')
     \<and> QueryPermissionsMultiResources (exampleEnv encodeOK (answersThird bodyCZAC)) (exampleClient [])
         [''a'', ''b'', ''c''] ActionRead (Some (exampleOptions [])) world0
         = Some (Return (Some [True, False, True]) None, w2'))"
proof -
  have s: "set (Filter_Result \<lparr>Filter_Result = [''a'', ''c'']\<rparr>) \<inter> set [''a'', ''b'', ''c'']
         = set (Filter_Result \<lparr>Filter_Result = [''c'', ''z'', ''a'', ''c'']\<rparr>) \<inter> set [''a'', ''b'', ''c'']"
    by auto
  from batch_result_depends_on_membership_only [OF example_no_bypass
      example_encodeOK_filter [of "answers bodyAC" "[''a'', ''b'', ''c'']" ActionRead "exampleOptions []"]
      example_encodeOK_filter [of "answersThird bodyCZAC" "[''a'', ''b'', ''c'']" ActionRead "exampleOptions []"]
      example_answers [of encodeOK bodyAC]
      example_answersThird [of encodeOK bodyCZAC]
      example_decode_ac [of encodeOK "answers bodyAC"]
      example_decode_czac [of encodeOK "answersThird bodyCZAC"]
      s]
  obtain results w1' w2' where
    r1: "QueryPermissionsMultiResources (exampleEnv encodeOK (answers bodyAC)) (exampleClient [])
         [''a'', ''b'', ''c''] ActionRead (Some (exampleOptions [])) world0
         = Some (Return (Some results) None, w1')"
    and r2: "QueryPermissionsMultiResources (exampleEnv encodeOK (answersThird bodyCZAC)) (exampleClient [])
         [''a'', ''b'', ''c''] ActionRead (Some (exampleOptions [])) world0
         = Some (Return (Some results) None, w2')"
    and r3: "results = map (\<lambda>x. x \<in> set (Filter_Result \<lparr>Filter_Result = [''a'', ''c'']\<rparr>))
                        [''a'', ''b'', ''c'']"
    by blast
  from r3 have "results = [True, False, True]" by simp
  with r1 r2 have "\<exists>w1' w2'.
       QueryPermissionsMultiResources (exampleEnv encodeOK (answers bodyAC)) (exampleClient [])
         [''a'', ''b'', ''c''] ActionRead (Some (exampleOptions [])) world0
         = Some (Return (Some [True, False, True]) None, w1')
     \<and> QueryPermissionsMultiResources (exampleEnv encodeOK (answersThird bodyCZAC)) (exampleClient [])
         [''a'', ''b'', ''c''] ActionRead (Some (exampleOptions [])) world0
         = Some (Return (Some [True, False, True]) None, w2')"
    by blast
  moreover have "set [''a'', ''c''] \<inter> set [''a'', ''b'', ''c'']
      = set [''c'', ''z'', ''a'', ''c''] \<inter> set [''a'', ''b'', ''c'']"
    by auto
  ultimately show ?thesis by blast
qed

text \<open>
  C9 as the code has it. With options that are not nil, both query methods return
  normally with a result and an error value: they do not panic, and the retry loop
  comes to an end.
\<close>

theorem returns_normally_with_options:
  "(\<exists>allowed er w'. QueryPermissions e c resource action (Some po) w = Some (Return allowed er, w'))
 \<and> (\<exists>results er w'. QueryPermissionsMultiResources e c resources action (Some po) w
                       = Some (Return results er, w'))"
proof
  from QueryPermissions_returns [of e c resource action po w]
  show "\<exists>allowed er w'. QueryPermissions e c resource action (Some po) w = Some (Return allowed er, w')"
    by blast
next
  from QueryPermissionsMultiResources_returns [of e c resources action po w]
  show "\<exists>results er w'. QueryPermissionsMultiResources e c resources action (Some po) w
                       = Some (Return results er, w')"
    by blast
qed

text \<open>
  With nil options the client configured without an override value reaches
  \<^verbatim>\<open>permissionOptions.MemberIds\<close> and panics; so does the batch query.
\<close>

theorem nil_options_panic:
  "QueryPermissions (exampleEnv encodeOK (answers bodyTrue)) (exampleClient []) ''x'' ActionRead
     None world0 = Some (Panic nilDereference, world0)
 \<and> QueryPermissionsMultiResources (exampleEnv encodeOK (answers bodyAC)) (exampleClient [])
     [''a'', ''b'', ''c''] ActionRead None world0 = Some (Panic nilDereference, world0)
 \<and> QueryPermissions (exampleEnv encodeOK (answers bodyTrue)) (exampleClient ''secret'') ''x'' ActionRead
     None world0 = Some (Panic nilDereference, world0)"
  by (simp add: QueryPermissions_def QueryPermissionsMultiResources_def overrideMatches_def
      exampleClient_def)

theorem returns_normally_with_options_witness:
  "(\<exists>allowed er w'. QueryPermissions (exampleEnv encodeOK unreachable) (exampleClient []) ''x''
                       ActionRead (Some (exampleOptions [])) world0 = Some (Return allowed er, w'))
 \<and> (\<exists>results er w'. QueryPermissionsMultiResources (exampleEnv encodeOK unreachable) (exampleClient [])
                       [''a'', ''b'', ''c''] ActionRead (Some (exampleOptions [])) world0
                       = Some (Return results er, w'))"
  using returns_normally_with_options [of "exampleEnv encodeOK unreachable" "exampleClient []"
      "''x''" ActionRead "exampleOptions []" world0 "[''a'', ''b'', ''c'']"]
  by blast

text \<open>
  C8 as the code has it. The fields of the request input are tagged \<open>omitempty\<close>: the
  object that \<open>QueryPermissions\<close> hands to the encoder is \<open>{"input": {...}}\<close>, and its
  inner object carries, in this order, \<open>resource\<close> when the resource string is not empty,
  \<open>action\<close> when the action is not empty and \<open>ids\<close> when \<open>MemberIds\<close> is not empty.
  On the network path every request on the wire has the encoding of that object as its
  body. When none of the three is empty, the object is the one of the wire protocol.
\<close>

theorem query_request_body:
  fixes resource action po
  defines "input \<equiv>
     JObject ((if resource = [] then [] else [(''resource'', JString resource)])
            @ (if action = [] then [] else [(''action'', JString action)])
            @ (if MemberIds po = [] then [] else [(''ids'', JArray (map JString (MemberIds po)))]))"
  shows "json_of_PermissionQueryRequest (queryRequest resource action po) = JObject [(''input'', input)]
       \<and> (overrideMatches c (Some po) = Some False \<and> json_encode e (JObject [(''input'', input)]) = Inr rb
            \<longrightarrow> (\<exists>r w' n. QueryPermissions e c resource action (Some po) w = Some (r, w')
                    \<and> 0 < n
                    \<and> sent w' = sent w @ replicate n
                          \<lparr>req_method = ''POST'', req_url = address c @ permissionQueryPath c,
                           req_body = rb,
                           req_headers = [(''Content-Type'', ''application/json''),
                                          (''User-Agent'', UserAgent e)],
                           req_cookies = []\<rparr>))
       \<and> (resource \<noteq> [] \<and> action \<noteq> [] \<and> MemberIds po \<noteq> []
            \<longrightarrow> input = JObject [(''resource'', JString resource), (''action'', JString action),
                                 (''ids'', JArray (map JString (MemberIds po)))])"
proof (intro conjI impI)
  show obj: "json_of_PermissionQueryRequest (queryRequest resource action po) = JObject [(''input'', input)]"
    by (simp add: json_of_PermissionQueryRequest_def json_of_PermissionQueryRequestInput_def
        queryRequest_def omitempty_string_def omitempty_strings_def input_def)
  show "\<exists>r w' n. QueryPermissions e c resource action (Some po) w = Some (r, w')
                    \<and> 0 < n
                    \<and> sent w' = sent w @ replicate n
                          \<lparr>req_method = ''POST'', req_url = address c @ permissionQueryPath c,
                           req_body = rb,
                           req_headers = [(''Content-Type'', ''application/json''),
                                          (''User-Agent'', UserAgent e)],
                           req_cookies = []\<rparr>"
    if h: "overrideMatches c (Some po) = Some False \<and> json_encode e (JObject [(''input'', input)]) = Inr rb"
  proof -
    from h obj have nb: "overrideMatches c (Some po) = Some False"
      and enc: "json_Marshal_query e (queryRequest resource action po) = Inr rb"
      by (simp_all add: json_Marshal_query_def)
    from QueryPermissions_exchange [OF nb enc, of w] show ?thesis
      unfolding transportRequest_def requestHeaders_def http_MethodPost_def by blast
  qed
  show "input = JObject [(''resource'', JString resource), (''action'', JString action),
                                 (''ids'', JArray (map JString (MemberIds po)))]"
    if "resource \<noteq> [] \<and> action \<noteq> [] \<and> MemberIds po \<noteq> []"
    using that by (simp add: input_def)
qed

text \<open>
  A query for resource \<open>x\<close>, action \<open>read\<close> and options without member ids: the object
  handed to the encoder has no \<open>ids\<close> key, and neither has the body on the wire.
\<close>

theorem empty_ids_are_omitted:
  "json_of_PermissionQueryRequest (queryRequest ''x'' ActionRead noMembers)
     = JObject [(''input'', JObject [(''resource'', JString ''x''), (''action'', JString ''read'')])]
 \<and> json_of_PermissionQueryRequest (queryRequest ''x'' ActionRead noMembers)
     \<noteq> JObject [(''input'', JObject [(''resource'', JString ''x''), (''action'', JString ''read''),
                                      (''ids'', JArray (map JString (MemberIds noMembers)))])]
 \<and> (\<exists>r w'. QueryPermissions (exampleEnv encodeOK (answers bodyTrue)) (exampleClient []) ''x'' ActionRead
              (Some noMembers) world0 = Some (r, w')
          \<and> map req_body (sent w') = [queryBodyNoIds])"
proof -
  have obj: "json_of_PermissionQueryRequest (queryRequest ''x'' ActionRead noMembers)
     = JObject [(''input'', JObject [(''resource'', JString ''x''), (''action'', JString ''read'')])]"
    by (simp add: json_of_PermissionQueryRequest_def json_of_PermissionQueryRequestInput_def
        queryRequest_def omitempty_string_def omitempty_strings_def noMembers_def ActionRead_def)
  have nb: "overrideMatches (exampleClient []) (Some noMembers) = Some False"
    by (simp add: overrideMatches_def exampleClient_def)
  have rendered: "renderJSON (json_of_PermissionQueryRequest (queryRequest ''x'' ActionRead noMembers))
                    = queryBodyNoIds"
    unfolding obj by (simp add: queryBodyNoIds_def)
  from QueryPermissions_succeeds [OF nb
      example_encodeOK_query [of "answers bodyTrue" "''x''" ActionRead noMembers]
      example_answers [of encodeOK bodyTrue]]
  obtain r w' where
    "QueryPermissions (exampleEnv encodeOK (answers bodyTrue)) (exampleClient []) ''x'' ActionRead
              (Some noMembers) world0 = Some (r, w')"
    and "sent w' = sent world0 @ replicate (Suc 0)
           (transportRequest (exampleEnv encodeOK (answers bodyTrue))
              (address (exampleClient []) @ permissionQueryPath (exampleClient []))
              (renderJSON (json_of_PermissionQueryRequest (queryRequest ''x'' ActionRead noMembers))))"
    by blast
  then have "\<exists>r w'. QueryPermissions (exampleEnv encodeOK (answers bodyTrue)) (exampleClient []) ''x'' ActionRead
              (Some noMembers) world0 = Some (r, w')
          \<and> map req_body (sent w') = [queryBodyNoIds]"
    by (intro exI [of _ r] exI [of _ w']) (simp add: rendered world0_def transportRequest_def)
  with obj show ?thesis by simp
qed

theorem query_request_body_witness:
  "overrideMatches (exampleClient []) (Some (exampleOptions [])) = Some False
 \<and> json_encode (exampleEnv encodeOK (answers bodyTrue))
      (JObject [(''input'', JObject [(''resource'', JString ''x''), (''action'', JString ''read''),
                                     (''ids'', JArray [JString ''u1''])])]) = Inr queryBodyWithIds
 \<and> (\<exists>r w' n. QueryPermissions (exampleEnv encodeOK (answers bodyTrue)) (exampleClient []) ''x''
                ActionRead (Some (exampleOptions [])) world0 = Some (r, w')
             \<and> 0 < n \<and> map req_body (sent w') = replicate n queryBodyWithIds)"
proof -
  let ?e = "exampleEnv encodeOK (answers bodyTrue)"
  have enc: "json_encode ?e
      (JObject [(''input'', JObject [(''resource'', JString ''x''), (''action'', JString ''read''),
                                     (''ids'', JArray [JString ''u1''])])]) = Inr queryBodyWithIds"
    by (simp add: exampleEnv_def encodeOK_def queryBodyWithIds_def)
  note t = query_request_body [of "''x''" ActionRead "exampleOptions []" "exampleClient []" ?e
      queryBodyWithIds world0]
  from t example_no_bypass enc
  have "\<exists>r w' n. QueryPermissions ?e (exampleClient []) ''x'' ActionRead (Some (exampleOptions [])) world0
                   = Some (r, w')
              \<and> 0 < n
              \<and> sent w' = sent world0 @ replicate n
                          \<lparr>req_method = ''POST'',
                           req_url = address (exampleClient []) @ permissionQueryPath (exampleClient []),
                           req_body = queryBodyWithIds,
                           req_headers = [(''Content-Type'', ''application/json''),
                                          (''User-Agent'', UserAgent ?e)],
                           req_cookies = []\<rparr>"
    by (simp add: exampleOptions_def ActionRead_def)
  then have "\<exists>r w' n. QueryPermissions ?e (exampleClient []) ''x''
                ActionRead (Some (exampleOptions [])) world0 = Some (r, w')
             \<and> 0 < n \<and> map req_body (sent w') = replicate n queryBodyWithIds"
    by (elim exE conjE) (auto simp: world0_def)
  with example_no_bypass enc show ?thesis by blast
qed

end
